theory Spec2Isabelle
  imports Complex_Main "HOL-Library.Sublist"
begin

section \<open>Data model of the hand-tracking component\<close>

text \<open>
  The component under study is \<^verbatim>\<open>HandTracking.tsx\<close>.  JavaScript numbers are modelled
  as real numbers (no rounding, no NaN), \<^verbatim>\<open>Date.now()\<close> as an integer number of
  milliseconds, mutable \<^verbatim>\<open>useRef\<close> cells and React state as fields of one state
  record that every operation takes and returns.
\<close>

subsection \<open>JavaScript values and records fetched from the data source\<close>

datatype jsval =
    JUndefined
  | JNull
  | JBool bool
  | JNum real
  | JStr string
  | JArr "jsval list"
  | JObj "(string \<times> jsval) list"

text \<open>An object is its list of own properties, in \<^verbatim>\<open>Object.keys\<close> order.\<close>

type_synonym obj = "(string \<times> jsval) list"

record chart_data =
  cd_tables :: "string list"
  cd_data :: "obj list"
  isEventsRegistrations :: "bool option"
  joinType :: "string option"
  joinTitle :: "string option"
  joinSubtitle :: "string option"
  xAxisField :: "string option"
  yAxisField :: "string option"
  yAxisLabel :: "string option"

definition empty_chart_data :: chart_data where
  "empty_chart_data =
     \<lparr>cd_tables = [], cd_data = [], isEventsRegistrations = None, joinType = None,
      joinTitle = None, joinSubtitle = None, xAxisField = None, yAxisField = None,
      yAxisLabel = None\<rparr>"

subsection \<open>Landmarks, tables, gesture state\<close>

record landmark =
  lm_x :: real
  lm_y :: real

text \<open>
  The detector reports 21 landmarks per hand.  The interpreter reads three of them:
  \<^verbatim>\<open>landmarks[4]\<close> (thumb tip), \<^verbatim>\<open>landmarks[6]\<close> (index PIP joint) and
  \<^verbatim>\<open>landmarks[8]\<close> (index tip); the record names exactly these.
\<close>

record hand =
  thumbTip :: landmark
  indexPip :: landmark
  indexTip :: landmark

record table_object =
  t_id :: string
  t_name :: string
  t_x :: real
  t_y :: real
  isDragging :: bool

record pinch_state =
  isPinching :: bool
  pinch_x :: real
  pinch_y :: real

record swipe_state =
  isTracking :: bool
  startX :: real
  startY :: real
  currentX :: real
  currentY :: real
  startTime :: int

datatype anim_state = Entering | Visible | Exiting | Hidden

datatype toast_type = ToastInfo | ToastError

datatype toast_message = PleaseDropTable | CreatingChart nat

text \<open>Callbacks handed to \<^verbatim>\<open>setTimeout\<close>, and asynchronous calls that are started and not awaited.\<close>

datatype timer_callback = ClearToast | ShowChartLater | EnterDone | HideDone

datatype effect = FetchTableData "string list"

record ui_state =
  tablesRef :: "table_object list"
  draggedTableRef :: "string option"
  droppedTablesRef :: "string list"
  generateButtonHoverRef :: bool
  buttonClickedRef :: bool
  pinchStateRef :: pinch_state
  swipeStateRef :: swipe_state
  showChart :: bool
  chartAnimationState :: anim_state
  chartAnimationStartRef :: int
  chartData :: chart_data
  loadingData :: bool
  toast :: "(toast_message \<times> toast_type) option"
  timers :: "(int \<times> timer_callback) list"
  effects :: "effect list"

section \<open>Chart animation director\<close>

definition showToast :: "int \<Rightarrow> toast_message \<Rightarrow> toast_type \<Rightarrow> ui_state \<Rightarrow> ui_state" where
  "showToast now m k s =
     s\<lparr>toast := Some (m, k), timers := timers s @ [(now + 3000, ClearToast)]\<rparr>"

definition showChartWithAnimation :: "int \<Rightarrow> ui_state \<Rightarrow> ui_state" where
  "showChartWithAnimation now s =
     s\<lparr>showChart := True, chartAnimationState := Entering, chartAnimationStartRef := now,
       timers := timers s @ [(now + 800, EnterDone)]\<rparr>"

definition hideChartWithAnimation :: "int \<Rightarrow> ui_state \<Rightarrow> ui_state" where
  "hideChartWithAnimation now s =
     s\<lparr>chartAnimationState := Exiting, chartAnimationStartRef := now,
       timers := timers s @ [(now + 600, HideDone)]\<rparr>"

text \<open>The body of each timer callback.\<close>

fun timer_fire :: "int \<Rightarrow> timer_callback \<Rightarrow> ui_state \<Rightarrow> ui_state" where
  "timer_fire now ClearToast s = s\<lparr>toast := None\<rparr>"
| "timer_fire now ShowChartLater s = showChartWithAnimation now s"
| "timer_fire now EnterDone s = s\<lparr>chartAnimationState := Visible\<rparr>"
| "timer_fire now HideDone s =
     s\<lparr>showChart := False, chartAnimationState := Hidden, chartData := empty_chart_data,
       droppedTablesRef := []\<rparr>"

text \<open>
  The event loop at time \<open>now\<close>: every pending timer whose delay has elapsed runs, the
  earliest due first and in registration order among timers due at the same time; the
  others stay pending.
\<close>

definition run_timers :: "int \<Rightarrow> ui_state \<Rightarrow> ui_state" where
  "run_timers now s =
     (let due = sort_key fst (filter (\<lambda>(t, cb). t \<le> now) (timers s));
          rest = filter (\<lambda>(t, cb). \<not> t \<le> now) (timers s)
      in foldl (\<lambda>st (t, cb). timer_fire now cb st) (s\<lparr>timers := rest\<rparr>) due)"


section \<open>Gesture interpreter (the landmark part of \<^verbatim>\<open>renderLoop\<close>)\<close>

definition pinchThreshold :: real where
  "pinchThreshold = 0.05"

definition distance :: "hand \<Rightarrow> real" where
  "distance h =
     sqrt ((lm_x (thumbTip h) - lm_x (indexTip h)) ^ 2 +
           (lm_y (thumbTip h) - lm_y (indexTip h)) ^ 2)"

definition hand_isPinching :: "hand \<Rightarrow> bool" where
  "hand_isPinching h \<longleftrightarrow> distance h < pinchThreshold"

text \<open>Drop zone configuration.\<close>

definition dropZone_x :: real where "dropZone_x = 0.5"
definition dropZone_y :: real where "dropZone_y = 0.7"
definition dropZone_width :: real where "dropZone_width = 0.3"
definition dropZone_height :: real where "dropZone_height = 0.2"

definition in_dropZone :: "table_object \<Rightarrow> bool" where
  "in_dropZone t \<longleftrightarrow>
     (let tableX = t_x t; tableY = t_y t;
          dropZoneLeft = dropZone_x - dropZone_width / 2;
          dropZoneRight = dropZone_x + dropZone_width / 2;
          dropZoneTop = dropZone_y - dropZone_height / 2;
          dropZoneBottom = dropZone_y + dropZone_height / 2
      in tableX \<ge> dropZoneLeft \<and> tableX \<le> dropZoneRight \<and>
         tableY \<ge> dropZoneTop \<and> tableY \<le> dropZoneBottom)"

text \<open>
  \<^verbatim>\<open>if (draggedTableRef.current)\<close>: the cell holds a string or null, and the empty
  string is falsy as null is.
\<close>

definition truthy_ref :: "string option \<Rightarrow> bool" where
  "truthy_ref r = (case r of None \<Rightarrow> False | Some v \<Rightarrow> v \<noteq> [])"

text \<open>
  \<^verbatim>\<open>const t = xs.find(p); if (t) { mutate t }\<close>: the first element that satisfies
  the test is updated in place, and nothing changes when there is none.
\<close>

fun update_first :: "('a \<Rightarrow> bool) \<Rightarrow> ('a \<Rightarrow> 'a) \<Rightarrow> 'a list \<Rightarrow> 'a list" where
  "update_first P f [] = []"
| "update_first P f (t # ts) = (if P t then f t # ts else t # update_first P f ts)"

text \<open>Pinch start over the Generate button: hover flag, click latch, generate action.\<close>

definition generate_button_pinch :: "int \<Rightarrow> ui_state \<Rightarrow> ui_state" where
  "generate_button_pinch now s =
     (let s1 = s\<lparr>generateButtonHoverRef := True\<rparr> in
      if \<not> buttonClickedRef s1 then
        (let s2 = s1\<lparr>buttonClickedRef := True\<rparr> in
         if length (droppedTablesRef s2) = 0 then showToast now PleaseDropTable ToastError s2
         else
           (let s3 = showToast now (CreatingChart (length (droppedTablesRef s2))) ToastInfo s2;
                s4 = s3\<lparr>effects := effects s3 @ [FetchTableData (droppedTablesRef s3)]\<rparr>
            in s4\<lparr>timers := timers s4 @ [(now + 500, ShowChartLater)]\<rparr>))
      else s1)"

text \<open>Pinch start elsewhere: the first table within the hit radius becomes the dragged one.\<close>

definition near_table :: "real \<Rightarrow> real \<Rightarrow> real \<Rightarrow> table_object \<Rightarrow> bool" where
  "near_table tableSize pinchX pinchY t \<longleftrightarrow>
     sqrt ((pinchX - t_x t) ^ 2 + (pinchY - t_y t) ^ 2) < tableSize"

definition grab_table :: "real \<Rightarrow> real \<Rightarrow> real \<Rightarrow> real \<Rightarrow> ui_state \<Rightarrow> ui_state" where
  "grab_table cw ch pinchX pinchY s =
     (let tableSize = 60 / min cw ch in
      case find (near_table tableSize pinchX pinchY) (tablesRef s) of
        None \<Rightarrow> s
      | Some t \<Rightarrow>
          s\<lparr>draggedTableRef := Some (t_id t),
            tablesRef := update_first (near_table tableSize pinchX pinchY)
                           (\<lambda>t. t\<lparr>isDragging := True\<rparr>) (tablesRef s)\<rparr>)"

definition pinch_start :: "real \<Rightarrow> real \<Rightarrow> int \<Rightarrow> real \<Rightarrow> real \<Rightarrow> ui_state \<Rightarrow> ui_state" where
  "pinch_start cw ch now pinchX pinchY s =
     (let dropZoneX = dropZone_x * cw;
          dropZoneY = dropZone_y * ch;
          dropZoneWidth = dropZone_width * cw;
          buttonX = (dropZoneX + dropZoneWidth / 2 + 60) / cw;
          buttonY = dropZoneY / ch;
          buttonWidth = 120 / cw;
          buttonHeight = 40 / ch;
          buttonLeft = buttonX - buttonWidth / 2;
          buttonRight = buttonX + buttonWidth / 2;
          buttonTop = buttonY - buttonHeight / 2;
          buttonBottom = buttonY + buttonHeight / 2;
          s1 = (if pinchX \<ge> buttonLeft \<and> pinchX \<le> buttonRight \<and>
                   pinchY \<ge> buttonTop \<and> pinchY \<le> buttonBottom
                then generate_button_pinch now s
                else grab_table cw ch pinchX pinchY s)
      in s1\<lparr>pinchStateRef := \<lparr>isPinching = True, pinch_x = pinchX, pinch_y = pinchY\<rparr>\<rparr>)"

text \<open>Pinch held: the dragged table follows the pinch centre, clamped.\<close>

definition drag_move :: "real \<Rightarrow> real \<Rightarrow> table_object \<Rightarrow> table_object" where
  "drag_move deltaX deltaY t =
     t\<lparr>t_x := max 0.05 (min 0.95 (t_x t + deltaX)),
       t_y := max 0.05 (min 0.95 (t_y t + deltaY))\<rparr>"

definition pinch_continue :: "real \<Rightarrow> real \<Rightarrow> ui_state \<Rightarrow> ui_state" where
  "pinch_continue pinchX pinchY s =
     (let pinchState = pinchStateRef s;
          s1 = (if truthy_ref (draggedTableRef s) then
                  (let deltaX = pinchX - pinch_x pinchState;
                       deltaY = pinchY - pinch_y pinchState
                   in s\<lparr>tablesRef :=
                          update_first (\<lambda>t. Some (t_id t) = draggedTableRef s)
                            (drag_move deltaX deltaY) (tablesRef s)\<rparr>)
                else s)
      in s1\<lparr>pinchStateRef := \<lparr>isPinching = True, pinch_x = pinchX, pinch_y = pinchY\<rparr>\<rparr>)"

text \<open>Pinch released by a hand that is present and no longer pinching.\<close>

definition pinch_release :: "ui_state \<Rightarrow> ui_state" where
  "pinch_release s =
     (let s1 = s\<lparr>generateButtonHoverRef := False, buttonClickedRef := False\<rparr>;
          s2 = (if truthy_ref (draggedTableRef s1) then
                  (case find (\<lambda>t. Some (t_id t) = draggedTableRef s1) (tablesRef s1) of
                     None \<Rightarrow> s1
                   | Some draggedTable \<Rightarrow>
                       s1\<lparr>tablesRef :=
                            update_first (\<lambda>t. Some (t_id t) = draggedTableRef s1)
                              (\<lambda>t. t\<lparr>isDragging := False\<rparr>) (tablesRef s1),
                          droppedTablesRef :=
                            (if in_dropZone draggedTable then
                               (if \<not> List.member (droppedTablesRef s1) (t_name draggedTable)
                                then droppedTablesRef s1 @ [t_name draggedTable]
                                else droppedTablesRef s1)
                             else droppedTablesRef s1)\<rparr>)
                  \<lparr>draggedTableRef := None\<rparr>
                else s1)
      in s2\<lparr>pinchStateRef := \<lparr>isPinching = False, pinch_x = 0, pinch_y = 0\<rparr>\<rparr>)"

text \<open>No hand in the frame while a pinch was in progress.\<close>

definition hands_lost :: "ui_state \<Rightarrow> ui_state" where
  "hands_lost s =
     (let s1 = s\<lparr>generateButtonHoverRef := False\<rparr>;
          s2 = (if truthy_ref (draggedTableRef s1) then
                  s1\<lparr>tablesRef :=
                       update_first (\<lambda>t. Some (t_id t) = draggedTableRef s1)
                         (\<lambda>t. t\<lparr>isDragging := False\<rparr>) (tablesRef s1),
                     draggedTableRef := None\<rparr>
                else s1)
      in s2\<lparr>pinchStateRef := \<lparr>isPinching = False, pinch_x = 0, pinch_y = 0\<rparr>\<rparr>)"

text \<open>The body of the loop over the hands of a frame.\<close>

definition process_hand :: "real \<Rightarrow> real \<Rightarrow> int \<Rightarrow> ui_state \<Rightarrow> hand \<Rightarrow> ui_state" where
  "process_hand cw ch now s h =
     (let pinchState = pinchStateRef s in
      if hand_isPinching h then
        (let pinchX = 1 - (lm_x (thumbTip h) + lm_x (indexTip h)) / 2;
             pinchY = (lm_y (thumbTip h) + lm_y (indexTip h)) / 2
         in if \<not> isPinching pinchState then pinch_start cw ch now pinchX pinchY s
            else pinch_continue pinchX pinchY s)
      else if isPinching pinchState then pinch_release s
      else s)"

text \<open>
  A frame is the latest detector result: \<open>None\<close> when there is no result yet (or no
  \<^verbatim>\<open>multiHandLandmarks\<close>), otherwise the list of hands.
\<close>

definition process_landmarks ::
    "real \<Rightarrow> real \<Rightarrow> int \<Rightarrow> ui_state \<Rightarrow> hand list option \<Rightarrow> ui_state" where
  "process_landmarks cw ch now s results =
     (case results of
        Some (h # hs) \<Rightarrow> foldl (process_hand cw ch now) s (h # hs)
      | _ \<Rightarrow> if isPinching (pinchStateRef s) then hands_lost s else s)"

text \<open>Swipe detection, run instead of the scene layer while the chart is shown.\<close>

definition swipe_detect :: "int \<Rightarrow> ui_state \<Rightarrow> hand list option \<Rightarrow> ui_state" where
  "swipe_detect now s results =
     (case results of
        Some (landmarks # hs) \<Rightarrow>
          (let tip = indexTip landmarks;
               currentTime = now;
               indexExtended = (lm_y tip < lm_y (indexPip landmarks))
           in if indexExtended then
                (let cX = 1 - lm_x tip; cY = lm_y tip in
                 if \<not> isTracking (swipeStateRef s) then
                   s\<lparr>swipeStateRef :=
                       \<lparr>isTracking = True, startX = cX, startY = cY, currentX = cX,
                        currentY = cY, startTime = currentTime\<rparr>\<rparr>
                 else
                   (let s1 = s\<lparr>swipeStateRef := (swipeStateRef s)\<lparr>currentX := cX, currentY := cY\<rparr>\<rparr>;
                        deltaX = cX - startX (swipeStateRef s1);
                        deltaY = \<bar>cY - startY (swipeStateRef s1)\<bar>;
                        timeElapsed = currentTime - startTime (swipeStateRef s1)
                    in if \<bar>deltaX\<bar> > 0.3 \<and> deltaY < 0.2 \<and> timeElapsed < 1000 then
                         (let s2 = hideChartWithAnimation now s1
                          in s2\<lparr>swipeStateRef := (swipeStateRef s2)\<lparr>isTracking := False\<rparr>\<rparr>)
                       else if timeElapsed > 1000 then
                         s1\<lparr>swipeStateRef := (swipeStateRef s1)\<lparr>isTracking := False\<rparr>\<rparr>
                       else s1))
              else s\<lparr>swipeStateRef := (swipeStateRef s)\<lparr>isTracking := False\<rparr>\<rparr>)
      | _ \<Rightarrow> s)"

text \<open>One drawn frame of \<^verbatim>\<open>renderLoop\<close>, as far as it changes state.\<close>

definition renderLoop :: "real \<Rightarrow> real \<Rightarrow> int \<Rightarrow> ui_state \<Rightarrow> hand list option \<Rightarrow> ui_state" where
  "renderLoop cw ch now s results =
     (if showChart s then swipe_detect now s results
      else process_landmarks cw ch now s results)"

section \<open>Data join engine\<close>

subsection \<open>Strings and objects\<close>

text \<open>\<^verbatim>\<open>toLowerCase\<close> and \<^verbatim>\<open>toUpperCase\<close> on the ASCII letters; other characters are kept.\<close>

definition lower_char :: "char \<Rightarrow> char" where
  "lower_char c =
     (case map_of (zip ''ABCDEFGHIJKLMNOPQRSTUVWXYZ'' ''abcdefghijklmnopqrstuvwxyz'') c of
        Some l \<Rightarrow> l | None \<Rightarrow> c)"

definition upper_char :: "char \<Rightarrow> char" where
  "upper_char c =
     (case map_of (zip ''abcdefghijklmnopqrstuvwxyz'' ''ABCDEFGHIJKLMNOPQRSTUVWXYZ'') c of
        Some u \<Rightarrow> u | None \<Rightarrow> c)"

definition toLowerCase :: "string \<Rightarrow> string" where
  "toLowerCase s = map lower_char s"

definition toUpperCase :: "string \<Rightarrow> string" where
  "toUpperCase s = map upper_char s"

fun startsWith :: "string \<Rightarrow> string \<Rightarrow> bool" where
  "startsWith s [] = True"
| "startsWith [] (c # cs) = False"
| "startsWith (a # s) (c # cs) = (a = c \<and> startsWith s cs)"

fun includes_str :: "string \<Rightarrow> string \<Rightarrow> bool" where
  "includes_str [] sub = (sub = [])"
| "includes_str (a # s) sub = (startsWith (a # s) sub \<or> includes_str s sub)"

text \<open>Decimal rendering of a natural number, as a template literal interpolates it.\<close>

fun show_nat :: "nat \<Rightarrow> string" where
  "show_nat n =
     (if n < 10 then [''0123456789'' ! n]
      else show_nat (n div 10) @ [''0123456789'' ! (n mod 10)])"

declare show_nat.simps [simp del]

text \<open>Property read (\<open>JUndefined\<close> when absent) and property write (in place, or appended).\<close>

definition obj_get :: "obj \<Rightarrow> string \<Rightarrow> jsval" where
  "obj_get item k = (case map_of item k of None \<Rightarrow> JUndefined | Some v \<Rightarrow> v)"

fun obj_set :: "obj \<Rightarrow> string \<Rightarrow> jsval \<Rightarrow> obj" where
  "obj_set [] k v = [(k, v)]"
| "obj_set (p # ps) k v = (if fst p = k then (k, v) # ps else p # obj_set ps k v)"

text \<open>JavaScript truthiness.\<close>

fun js_truthy :: "jsval \<Rightarrow> bool" where
  "js_truthy JUndefined = False"
| "js_truthy JNull = False"
| "js_truthy (JBool b) = b"
| "js_truthy (JNum r) = (r \<noteq> 0)"
| "js_truthy (JStr s) = (s \<noteq> [])"
| "js_truthy (JArr xs) = True"
| "js_truthy (JObj ps) = True"

definition js_or :: "jsval \<Rightarrow> jsval \<Rightarrow> jsval" where
  "js_or a b = (if js_truthy a then a else b)"

text \<open>\<^verbatim>\<open>Object.keys(item).filter((key) => !key.startsWith("_"))\<close>\<close>

definition public_keys :: "obj \<Rightarrow> string list" where
  "public_keys item = filter (\<lambda>key. \<not> startsWith key ''_'') (map fst item)"

subsection \<open>The external data source\<close>

text \<open>
  The relational data source and the JavaScript runtime are outside the component.  A
  query either throws, or resolves to an error, or resolves to data (which may be null).
  Within one fetch the environment answers the same question the same way: loading the
  client module succeeds or fails throughout, and a query is determined by its table and
  its select clause.
\<close>

datatype select_clause =
    SelectAll
  | SelectEventsWithCount
  | SelectUserColumns
  | SelectCategoryColumns
  | SelectColumn string

datatype query_result = QueryThrows | QueryError | QueryData "obj list option"

record schema_rel =
  rel_table1 :: string
  rel_table2 :: string
  rel_referencingTable :: string
  rel_referencedTable :: string
  rel_foreignKey :: string

record env =
  import_supabase :: bool  \<comment> \<open>whether \<^verbatim>\<open>await import("../lib/supabase")\<close> resolves\<close>
  query :: "string \<Rightarrow> select_clause \<Rightarrow> query_result"
  relationships :: "schema_rel list"  \<comment> \<open>from the \<^verbatim>\<open>useSupabaseTables\<close> hook\<close>
  random :: "nat \<Rightarrow> real"  \<comment> \<open>the successive results of \<^verbatim>\<open>Math.random()\<close>\<close>
  js_Number :: "jsval \<Rightarrow> real option"  \<comment> \<open>\<^verbatim>\<open>Number(v)\<close>, \<open>None\<close> for NaN\<close>
  js_String :: "jsval \<Rightarrow> string"  \<comment> \<open>string conversion in a template literal\<close>

datatype js_error = ImportFailed | QueryFailed | FetchFailed

definition import_lib :: "env \<Rightarrow> js_error + unit" where
  "import_lib e = (if import_supabase e then Inr () else Inl ImportFailed)"

text \<open>\<^verbatim>\<open>const { data, error } = await supabase.from(t).select(c)\<close>: the pair (error, data).\<close>

definition run_query :: "env \<Rightarrow> string \<Rightarrow> select_clause \<Rightarrow> js_error + (bool \<times> obj list option)" where
  "run_query e t c =
     (case query e t c of
        QueryThrows \<Rightarrow> Inl QueryFailed
      | QueryError \<Rightarrow> Inr (True, None)
      | QueryData d \<Rightarrow> Inr (False, d))"

subsection \<open>Axis choice and relationship detection\<close>

definition dateFields :: "string list" where
  "dateFields =
     [''created'', ''createdAt'', ''created_at'', ''updatedAt'', ''updated_at'', ''date'',
      ''timestamp'']"

definition getBestXAxisField :: "obj list \<Rightarrow> string" where
  "getBestXAxisField data =
     (case data of
        [] \<Rightarrow> ''id''
      | sampleItem # rest \<Rightarrow>
          (let fields = public_keys sampleItem in
           case find (\<lambda>field. List.member fields field) dateFields of
             Some field \<Rightarrow> field
           | None \<Rightarrow>
               (case find (\<lambda>f. includes_str (toLowerCase f) ''title'') fields of
                  Some titleField \<Rightarrow> titleField
                | None \<Rightarrow>
                    (case find (\<lambda>f. includes_str (toLowerCase f) ''name'') fields of
                       Some nameField \<Rightarrow> nameField
                     | None \<Rightarrow>
                         if List.member fields ''id'' then ''id''
                         else (case fields of
                                 [] \<Rightarrow> ''id''
                               | f # fs \<Rightarrow> if f \<noteq> [] then f else ''id'')))))"

definition findSchemaRelationship :: "env \<Rightarrow> string \<Rightarrow> string \<Rightarrow> schema_rel option" where
  "findSchemaRelationship e table1 table2 =
     find (\<lambda>rel.
        (toLowerCase (rel_table1 rel) = toLowerCase table1 \<and>
         toLowerCase (rel_table2 rel) = toLowerCase table2) \<or>
        (toLowerCase (rel_table1 rel) = toLowerCase table2 \<and>
         toLowerCase (rel_table2 rel) = toLowerCase table1))
       (relationships e)"

record detected_rel =
  foreignKey :: string
  referencingTable :: string
  referencedTable :: string
  referencingData :: "obj list"
  referencedData :: "obj list"

text \<open>The rows of \<open>allData\<close> tagged with a table name, and the columns of the first such row.\<close>

definition table_rows :: "string \<Rightarrow> obj list \<Rightarrow> obj list" where
  "table_rows t allData = filter (\<lambda>item. obj_get item ''_table'' = JStr t) allData"

definition first_columns :: "obj list \<Rightarrow> string list" where
  "first_columns rows = (case rows of [] \<Rightarrow> public_keys [] | r # rs \<Rightarrow> public_keys r)"

text \<open>The columns that look like a reference to table \<open>other\<close>.\<close>

definition ref_columns :: "string \<Rightarrow> string list \<Rightarrow> string list" where
  "ref_columns other cols =
     filter (\<lambda>col.
        includes_str (toLowerCase col) (toLowerCase other) \<or>
        toLowerCase col = toLowerCase other @ ''_id'' \<or>
        toLowerCase col = toLowerCase other @ ''id'') cols"

definition detectTableRelationships :: "string list \<Rightarrow> obj list \<Rightarrow> detected_rel option" where
  "detectTableRelationships tableNames allData =
     (case tableNames of
        [table1, table2] \<Rightarrow>
          (let table1Data = table_rows table1 allData;
               table2Data = table_rows table2 allData
           in if length table1Data = 0 \<or> length table2Data = 0 then None
              else
                (let table1Columns = first_columns table1Data;
                     table2Columns = first_columns table2Data;
                     table2RefColumns = ref_columns table2 table1Columns;
                     (fk, referencing, referenced) =
                       (if length table2RefColumns > 0
                        then (Some (hd table2RefColumns), Some table1, Some table2)
                        else
                          (let table1RefColumns = ref_columns table1 table2Columns in
                           if length table1RefColumns > 0
                           then (Some (hd table1RefColumns), Some table2, Some table1)
                           else (None, None, None)))
                 in if \<not> truthy_ref fk \<or> \<not> truthy_ref referencing \<or> \<not> truthy_ref referenced
                    then None
                    else
                      Some \<lparr>foreignKey = the fk,
                            referencingTable = the referencing,
                            referencedTable = the referenced,
                            referencingData =
                              (if the referencing = table1 then table1Data else table2Data),
                            referencedData =
                              (if the referenced = table1 then table1Data else table2Data)\<rparr>))
      | _ \<Rightarrow> None)"

subsection \<open>Join queries on a known schema relationship\<close>

record join_result =
  jr_type :: string
  jr_title :: string
  jr_subtitle :: string
  jr_data :: "obj list"
  jr_xAxisField :: string
  jr_yAxisField :: string
  jr_yAxisLabel :: string

text \<open>\<^verbatim>\<open>typeof v.id === "number" ? v.id : Number(v.id) || 0\<close>\<close>

definition numeric_id :: "env \<Rightarrow> jsval \<Rightarrow> real" where
  "numeric_id e v =
     (case v of
        JNum r \<Rightarrow> r
      | _ \<Rightarrow> (case js_Number e v of None \<Rightarrow> 0 | Some r \<Rightarrow> r))"

definition with_counter :: "env \<Rightarrow> string \<Rightarrow> string \<Rightarrow> obj \<Rightarrow> obj" where
  "with_counter e counter tbl row =
     obj_set (obj_set (obj_set row ''id'' (JNum (numeric_id e (obj_get row ''id''))))
                counter (JNum 0))
       ''_table'' (JStr tbl)"

text \<open>Strategy 3: count the rows of the referencing table by the value of the foreign key.\<close>

definition count_reference :: "env \<Rightarrow> string \<Rightarrow> string \<Rightarrow> (jsval \<times> obj) list \<Rightarrow> obj \<Rightarrow> (jsval \<times> obj) list" where
  "count_reference e referencing fkey counts item =
     (let referencedItemId = obj_get item fkey in
      if js_truthy referencedItemId then
        (let displayName = referencing @ '' '' @ js_String e referencedItemId;
             counts1 =
               (if map_of counts referencedItemId = None then
                  counts @
                    [(referencedItemId,
                      [(''id'', JNum (case js_Number e referencedItemId of
                                       None \<Rightarrow> 0 | Some r \<Rightarrow> r)),
                       (''name'', JStr displayName),
                       (''count'', JNum 0),
                       (''_table'', JStr referencing)])]
                else counts)
         in map (\<lambda>(k, existing).
                   if k = referencedItemId then
                     (k, obj_set existing ''count''
                           (case obj_get existing ''count'' of
                              JNum n \<Rightarrow> JNum (n + 1) | v \<Rightarrow> v))
                   else (k, existing)) counts1)
      else counts)"

definition createJoinQuery_body :: "env \<Rightarrow> schema_rel \<Rightarrow> js_error + join_result option" where
  "createJoinQuery_body e relationship =
     (case import_lib e of
        Inl err \<Rightarrow> Inl err
      | Inr u \<Rightarrow>
          (let referencing = rel_referencingTable relationship;
               referenced = rel_referencedTable relationship;
               fkey = rel_foreignKey relationship;
               strategy3 =
                 (case run_query e referencing (SelectColumn fkey) of
                    Inl err \<Rightarrow> Inl err
                  | Inr (error, data) \<Rightarrow>
                      (case data of
                         Some rows \<Rightarrow>
                           if \<not> error then
                             (let counts = foldl (count_reference e referencing fkey) [] rows;
                                  processedData = map snd counts
                              in Inr (Some
                                   \<lparr>jr_type = ''relationship_count'',
                                    jr_title = ''RELATIONSHIP ANALYSIS'',
                                    jr_subtitle =
                                      referencing @ [CHR '' '', CHR 0xE2, CHR 0x86, CHR 0x92, CHR '' '']
                                        @ referenced,
                                    jr_data = processedData,
                                    jr_xAxisField = getBestXAxisField processedData,
                                    jr_yAxisField = ''count'',
                                    jr_yAxisLabel = ''COUNT''\<rparr>))
                           else Inr None
                       | None \<Rightarrow> Inr None));
               strategy2 =
                 (if includes_str (toLowerCase referenced) ''categor'' \<or>
                     includes_str (toLowerCase referencing) ''product'' \<or>
                     includes_str (toLowerCase referencing) ''item''
                  then
                    (case run_query e referenced SelectCategoryColumns of
                       Inl err \<Rightarrow> Inl err
                     | Inr (error, data) \<Rightarrow>
                         (case data of
                            Some rows \<Rightarrow>
                              if \<not> error then
                                (let processedData = map (with_counter e ''item_count'' referenced) rows
                                 in Inr (Some
                                      \<lparr>jr_type = ''category_distribution'',
                                       jr_title = ''CATEGORY DISTRIBUTION'',
                                       jr_subtitle = referencing @ '' per '' @ referenced,
                                       jr_data = processedData,
                                       jr_xAxisField = getBestXAxisField processedData,
                                       jr_yAxisField = ''item_count'',
                                       jr_yAxisLabel = toUpperCase referencing\<rparr>))
                              else strategy3
                          | None \<Rightarrow> strategy3))
                  else strategy3)
           in if includes_str (toLowerCase referenced) ''user'' \<or>
                 includes_str (toLowerCase referenced) ''customer''
              then
                (case run_query e referenced SelectUserColumns of
                   Inl err \<Rightarrow> Inl err
                 | Inr (error, data) \<Rightarrow>
                     (case data of
                        Some rows \<Rightarrow>
                          if \<not> error then
                            (let processedData = map (with_counter e ''activity_count'' referenced) rows
                             in Inr (Some
                                  \<lparr>jr_type = ''user_activity'',
                                   jr_title = toUpperCase referenced @ '' ACTIVITY'',
                                   jr_subtitle = referencing @ '' per '' @ referenced,
                                   jr_data = processedData,
                                   jr_xAxisField = getBestXAxisField processedData,
                                   jr_yAxisField = ''activity_count'',
                                   jr_yAxisLabel = toUpperCase referencing\<rparr>))
                          else strategy2
                      | None \<Rightarrow> strategy2))
              else strategy2))"

definition createJoinQuery :: "env \<Rightarrow> string list \<Rightarrow> js_error + join_result option" where
  "createJoinQuery e tableNames =
     (case tableNames of
        [table1, table2] \<Rightarrow>
          (case findSchemaRelationship e table1 table2 of
             None \<Rightarrow> Inr None
           | Some relationship \<Rightarrow>
               (case createJoinQuery_body e relationship of
                  Inl err \<Rightarrow> Inr None  \<comment> \<open>the catch block logs and falls through to \<^verbatim>\<open>return null\<close>\<close>
                | Inr r \<Rightarrow> Inr r))
      | _ \<Rightarrow> Inr None)"

subsection \<open>Events and registrations\<close>

definition events_tables :: "string list" where
  "events_tables = [''events'', ''registrations'']"

definition events_chart :: "obj list \<Rightarrow> chart_data" where
  "events_chart rows =
     empty_chart_data\<lparr>cd_tables := events_tables, cd_data := rows,
                      isEventsRegistrations := Some True\<rparr>"

text \<open>The catch block of \<^verbatim>\<open>fetchSeparateEventsRegistrations\<close>: eight demo events.\<close>

definition demoEvent :: "env \<Rightarrow> nat \<Rightarrow> obj" where
  "demoEvent e i =
     [(''id'', JNum (real (i + 1))),
      (''title'', JStr (''Event '' @ show_nat (i + 1))),
      (''name'', JStr (''Conference '' @ show_nat (i + 1))),
      (''registration_count'', JNum (real_of_int (\<lfloor>random e i * 50\<rfloor> + 5))),
      (''_table'', JStr ''events'')]"

definition demoEvents :: "env \<Rightarrow> obj list" where
  "demoEvents e = map (demoEvent e) [0..<8]"

text \<open>Counting registrations per event: a \<^verbatim>\<open>Map\<close> from event id to the event row.\<close>

definition add_event :: "(jsval \<times> obj) list \<Rightarrow> obj \<Rightarrow> (jsval \<times> obj) list" where
  "add_event eventCounts event =
     (let k = obj_get event ''id''; v = obj_set event ''registration_count'' (JNum 0) in
      if map_of eventCounts k = None then eventCounts @ [(k, v)]
      else map (\<lambda>(k', old). if k' = k then (k', v) else (k', old)) eventCounts)"

definition count_registration :: "(jsval \<times> obj) list \<Rightarrow> obj \<Rightarrow> (jsval \<times> obj) list" where
  "count_registration eventCounts registration =
     (let eventId = js_or (js_or (obj_get registration ''event_id'')
                                 (obj_get registration ''eventId''))
                          (obj_get registration ''events_id'')
      in if js_truthy eventId \<and> map_of eventCounts eventId \<noteq> None then
           map (\<lambda>(k, event).
                  if k = eventId then
                    (k, obj_set event ''registration_count''
                          (case obj_get event ''registration_count'' of
                             JNum n \<Rightarrow> JNum (n + 1) | v \<Rightarrow> v))
                  else (k, event)) eventCounts
         else eventCounts)"

definition fetchSeparate_body :: "env \<Rightarrow> js_error + obj list" where
  "fetchSeparate_body e =
     (case import_lib e of
        Inl err \<Rightarrow> Inl err
      | Inr u \<Rightarrow>
          (case run_query e ''events'' SelectAll of
             Inl err \<Rightarrow> Inl err
           | Inr (eventsError, events) \<Rightarrow>
               (case run_query e ''registrations'' SelectAll of
                  Inl err \<Rightarrow> Inl err
                | Inr (registrationsError, registrations) \<Rightarrow>
                    if eventsError \<or> registrationsError then Inl FetchFailed
                    else
                      (let eventCounts0 =
                             (case events of None \<Rightarrow> [] | Some evs \<Rightarrow> foldl add_event [] evs);
                           eventCounts =
                             (case registrations of
                                None \<Rightarrow> eventCounts0
                              | Some regs \<Rightarrow> foldl count_registration eventCounts0 regs)
                       in Inr (map (\<lambda>(k, event). obj_set event ''_table'' (JStr ''events''))
                                 eventCounts)))))"

definition fetchSeparateEventsRegistrations :: "env \<Rightarrow> ui_state \<Rightarrow> js_error + ui_state" where
  "fetchSeparateEventsRegistrations e s =
     (case fetchSeparate_body e of
        Inr eventsWithCounts \<Rightarrow>
          Inr (s\<lparr>chartData := events_chart eventsWithCounts, loadingData := False\<rparr>)
      | Inl err \<Rightarrow>
          Inr (s\<lparr>loadingData := False, chartData := events_chart (demoEvents e)\<rparr>))"

text \<open>\<^verbatim>\<open>event.registrations?.length || 0\<close>\<close>

definition registrations_length :: "obj \<Rightarrow> real" where
  "registrations_length event =
     (case obj_get event ''registrations'' of
        JArr xs \<Rightarrow> real (length xs)
      | JStr str \<Rightarrow> real (length str)
      | JObj ps \<Rightarrow> (case obj_get ps ''length'' of JNum n \<Rightarrow> n | _ \<Rightarrow> 0)
      | _ \<Rightarrow> 0)"

definition fetchEventsRegistrationsData :: "env \<Rightarrow> ui_state \<Rightarrow> js_error + ui_state" where
  "fetchEventsRegistrationsData e s =
     (let s1 = s\<lparr>loadingData := True\<rparr>;
          body =
            (case import_lib e of
               Inl err \<Rightarrow> Inl err
             | Inr u \<Rightarrow>
                 (case run_query e ''events'' SelectEventsWithCount of
                    Inl err \<Rightarrow> Inl err
                  | Inr (error, data) \<Rightarrow>
                      if error then fetchSeparateEventsRegistrations e s1
                      else
                        (let eventsWithCounts =
                               (case data of
                                  None \<Rightarrow> []
                                | Some rows \<Rightarrow>
                                    map (\<lambda>event.
                                           obj_set
                                             (obj_set event ''registration_count''
                                                (JNum (registrations_length event)))
                                             ''_table'' (JStr ''events'')) rows)
                         in Inr (s1\<lparr>chartData := events_chart eventsWithCounts,
                                    loadingData := False\<rparr>))))
      in case body of
           Inr s' \<Rightarrow> Inr s'
         | Inl err \<Rightarrow> fetchSeparateEventsRegistrations e s1)"

subsection \<open>The generic fetch and its demo fallback\<close>

text \<open>One iteration of the loop over the table names: the tagged rows it pushes.\<close>

definition fetch_one :: "env \<Rightarrow> string \<Rightarrow> obj list" where
  "fetch_one e tableName =
     (case run_query e tableName SelectAll of
        Inl err \<Rightarrow> []  \<comment> \<open>inner catch: logged\<close>
      | Inr (error, data) \<Rightarrow>
          if error then []  \<comment> \<open>logged, \<^verbatim>\<open>continue\<close>\<close>
          else
            (case data of
               None \<Rightarrow> []
             | Some rows \<Rightarrow>
                 if length rows > 0
                 then map (\<lambda>record. obj_set record ''_table'' (JStr tableName)) rows
                 else []))"

text \<open>
  A demo row of the outer catch block.  \<^verbatim>\<open>Math.random()\<close> is called once per row for
  the value and once more for the foreign key of a row that gets one; the rows are built
  table by table, so the draw of row \<open>i\<close> of table \<open>tableIndex\<close> has the index computed
  here (only the second of two tables has foreign keys, and it comes after the five
  draws of the first).
\<close>

definition demoRow :: "env \<Rightarrow> string list \<Rightarrow> nat \<Rightarrow> string \<Rightarrow> nat \<Rightarrow> obj" where
  "demoRow e tableNames tableIndex tbl i =
     (let withKey = (length tableNames = 2 \<and> tableIndex = 1);
          draw = 5 * tableIndex + (if withKey then 2 * i else i);
          baseRecord =
            [(''id'', JNum (real (i + 1))),
             (''value'', JNum (random e draw * 100)),
             (''name'', JStr (tbl @ '' Item '' @ show_nat (i + 1))),
             (''title'', JStr (tbl @ '' Title '' @ show_nat (i + 1))),
             (''_table'', JStr tbl)]
      in if withKey then
           obj_set baseRecord (hd tableNames @ ''_id'')
             (JNum (real_of_int (\<lfloor>random e (draw + 1) * 5\<rfloor> + 1)))
         else baseRecord)"

definition demoData :: "env \<Rightarrow> string list \<Rightarrow> obj list" where
  "demoData e tableNames =
     concat (map (\<lambda>(tableIndex, tbl). map (demoRow e tableNames tableIndex tbl) [0..<5])
               (zip [0..<length tableNames] tableNames))"

definition generic_chart :: "string list \<Rightarrow> obj list \<Rightarrow> chart_data" where
  "generic_chart tableNames rows = empty_chart_data\<lparr>cd_tables := tableNames, cd_data := rows\<rparr>"

definition fetchGeneric :: "env \<Rightarrow> string list \<Rightarrow> ui_state \<Rightarrow> js_error + ui_state" where
  "fetchGeneric e tableNames s =
     (let s1 = s\<lparr>loadingData := True\<rparr>;
          body =
            (case import_lib e of
               Inl err \<Rightarrow> Inl err
             | Inr u \<Rightarrow> Inr (concat (map (fetch_one e) tableNames)))
      in case body of
           Inr allData \<Rightarrow>
             Inr (s1\<lparr>chartData := generic_chart tableNames allData, loadingData := False\<rparr>)
         | Inl err \<Rightarrow>
             Inr (s1\<lparr>loadingData := False,
                     chartData := generic_chart tableNames (demoData e tableNames)\<rparr>))"

definition is_events_pair :: "string list \<Rightarrow> bool" where
  "is_events_pair tableNames \<longleftrightarrow>
     (let hasEvents = list_ex (\<lambda>name. includes_str (toLowerCase name) ''event'') tableNames;
          hasRegistrations =
            list_ex (\<lambda>name. includes_str (toLowerCase name) ''registration'') tableNames
      in hasEvents \<and> hasRegistrations \<and> length tableNames = 2)"

definition fetchTableData :: "env \<Rightarrow> string list \<Rightarrow> ui_state \<Rightarrow> js_error + ui_state" where
  "fetchTableData e tableNames s =
     (if is_events_pair tableNames then fetchEventsRegistrationsData e s
      else
        (case (if length tableNames = 2 \<and> length (relationships e) > 0
               then createJoinQuery e tableNames else Inr None) of
           Inl err \<Rightarrow> Inl err
         | Inr (Some joinResult) \<Rightarrow>
             Inr (s\<lparr>chartData :=
                      \<lparr>cd_tables = tableNames,
                       cd_data = jr_data joinResult,
                       isEventsRegistrations = None,
                       joinType = Some (jr_type joinResult),
                       joinTitle = Some (jr_title joinResult),
                       joinSubtitle = Some (jr_subtitle joinResult),
                       xAxisField = Some (jr_xAxisField joinResult),
                       yAxisField = Some (jr_yAxisField joinResult),
                       yAxisLabel = Some (jr_yAxisLabel joinResult)\<rparr>,
                    loadingData := False\<rparr>)
         | Inr None \<Rightarrow> fetchGeneric e tableNames s))"

subsection \<open>Initial state of the component\<close>

definition initial_state :: ui_state where
  "initial_state =
     \<lparr>tablesRef = [], draggedTableRef = None, droppedTablesRef = [],
      generateButtonHoverRef = False, buttonClickedRef = False,
      pinchStateRef = \<lparr>isPinching = False, pinch_x = 0, pinch_y = 0\<rparr>,
      swipeStateRef =
        \<lparr>isTracking = False, startX = 0, startY = 0, currentX = 0, currentY = 0,
         startTime = 0\<rparr>,
      showChart = False, chartAnimationState = Hidden, chartAnimationStartRef = 0,
      chartData = empty_chart_data, loadingData = False, toast = None, timers = [],
      effects = []\<rparr>"

text \<open>The table objects created once the table list is known, laid out along the top.\<close>

definition default_tables :: "string list" where
  "default_tables = [''users'', ''posts'', ''comments'', ''products'']"

definition init_tables :: "(string \<Rightarrow> nat \<Rightarrow> string) \<Rightarrow> string list \<Rightarrow> table_object list" where
  "init_tables mk_id availableTables =
     (let displayTables = (if length availableTables > 0 then availableTables else default_tables)
      in map (\<lambda>(index, tableName).
                \<lparr>t_id = mk_id tableName index, t_name = tableName,
                 t_x = 0.1 + real index * 0.15, t_y = 0.1, isDragging = False\<rparr>)
             (zip [0..<length displayTables] displayTables))"

section \<open>The component as a state machine\<close>

text \<open>
  What can happen to the state between two renders: a drawn frame with the detector's
  latest result, the timers that are due, and the completion of the oldest data fetch
  that was started and is still outstanding.
\<close>

datatype event =
    Frame real real int "hand list option"
  | TimersDue int
  | FetchCompletes env

fun step :: "ui_state \<Rightarrow> event \<Rightarrow> ui_state" where
  "step s (Frame cw ch now results) = renderLoop cw ch now s results"
| "step s (TimersDue now) = run_timers now s"
| "step s (FetchCompletes e) =
     (case effects s of
        [] \<Rightarrow> s
      | FetchTableData tableNames # rest \<Rightarrow>
          (case fetchTableData e tableNames (s\<lparr>effects := rest\<rparr>) of
             Inr s' \<Rightarrow> s'
           | Inl err \<Rightarrow> s\<lparr>effects := rest\<rparr>))"

definition run :: "ui_state \<Rightarrow> event list \<Rightarrow> ui_state" where
  "run s evs = foldl step s evs"

text \<open>The visible normalized area a dragged table is kept in.\<close>

definition in_visible_area :: "table_object \<Rightarrow> bool" where
  "in_visible_area t \<longleftrightarrow> 0.05 \<le> t_x t \<and> t_x t \<le> 0.95 \<and> 0.05 \<le> t_y t \<and> t_y t \<le> 0.95"

text \<open>
  The successive states within one drawn frame: the state before, and the state after
  each hand of the frame has been processed (or after the single no-hands or swipe step).
\<close>

fun hand_states :: "real \<Rightarrow> real \<Rightarrow> int \<Rightarrow> ui_state \<Rightarrow> hand list \<Rightarrow> ui_state list" where
  "hand_states cw ch now s [] = [s]"
| "hand_states cw ch now s (h # hs) = s # hand_states cw ch now (process_hand cw ch now s h) hs"





section \<open>Predicates used in the statements\<close>

text \<open>
  A table after some events, compared with the same table before: it has not moved, or
  it lies in the visible area.
\<close>

definition kept_or_clamped :: "table_object \<Rightarrow> table_object \<Rightarrow> bool" where
  "kept_or_clamped t t' \<longleftrightarrow> (t_x t' = t_x t \<and> t_y t' = t_y t) \<or> in_visible_area t'"

text \<open>
  A frame started the dismissal of the chart: the hide animation began at \<open>now\<close> and
  its timer was registered.
\<close>

definition swipe_dismissed :: "int \<Rightarrow> ui_state \<Rightarrow> ui_state \<Rightarrow> bool" where
  "swipe_dismissed now s s' \<longleftrightarrow>
     timers s' = timers s @ [(now + 600, HideDone)] \<and>
     chartAnimationState s' = Exiting \<and> chartAnimationStartRef s' = now"


section \<open>Concrete inputs used to exercise the theorems\<close>

definition boundary_hand :: hand where
  "boundary_hand =
     \<lparr>thumbTip = \<lparr>lm_x = 0.5, lm_y = 0.5\<rparr>, indexPip = \<lparr>lm_x = 0.5, lm_y = 0.6\<rparr>,
      indexTip = \<lparr>lm_x = 0.53, lm_y = 0.54\<rparr>\<rparr>"

definition users_table :: table_object where
  "users_table = \<lparr>t_id = ''users-0'', t_name = ''users'', t_x = 0.5, t_y = 0.7, isDragging = True\<rparr>"

definition posts_table :: table_object where
  "posts_table = \<lparr>t_id = ''posts-1'', t_name = ''posts'', t_x = 0.25, t_y = 0.1, isDragging = False\<rparr>"

definition held_state :: ui_state where
  "held_state =
     initial_state\<lparr>tablesRef := [posts_table, users_table],
                   draggedTableRef := Some ''users-0'',
                   generateButtonHoverRef := True,
                   buttonClickedRef := True,
                   pinchStateRef := \<lparr>isPinching = True, pinch_x = 0.5, pinch_y = 0.7\<rparr>\<rparr>"

definition pinching_hand :: hand where
  "pinching_hand =
     \<lparr>thumbTip = \<lparr>lm_x = 0.01, lm_y = 0.5\<rparr>, indexPip = \<lparr>lm_x = 0.01, lm_y = 0.6\<rparr>,
      indexTip = \<lparr>lm_x = 0.01, lm_y = 0.52\<rparr>\<rparr>"

definition open_hand :: hand where
  "open_hand =
     \<lparr>thumbTip = \<lparr>lm_x = 0.2, lm_y = 0.5\<rparr>, indexPip = \<lparr>lm_x = 0.4, lm_y = 0.4\<rparr>,
      indexTip = \<lparr>lm_x = 0.4, lm_y = 0.3\<rparr>\<rparr>"

definition held_again_state :: ui_state where
  "held_again_state = held_state\<lparr>droppedTablesRef := [''users'']\<rparr>"


definition swiping_state :: ui_state where
  "swiping_state =
     initial_state\<lparr>showChart := True, chartAnimationState := Visible,
                   droppedTablesRef := [''users''],
                   swipeStateRef :=
                     \<lparr>isTracking = True, startX = 0.2, startY = 0.5, currentX = 0.2,
                      currentY = 0.5, startTime = 1000\<rparr>,
                   timers := [(5000, ClearToast)]\<rparr>"

definition swipe_hand :: hand where
  "swipe_hand =
     \<lparr>thumbTip = \<lparr>lm_x = 0.1, lm_y = 0.8\<rparr>, indexPip = \<lparr>lm_x = 0.4, lm_y = 0.6\<rparr>,
      indexTip = \<lparr>lm_x = 0.4, lm_y = 0.45\<rparr>\<rparr>"

definition post_row :: obj where
  "post_row = [(''id'', JNum 1), (''user_id'', JNum 7), (''_table'', JStr ''post'')]"

definition user_row :: obj where
  "user_row = [(''id'', JNum 7), (''post_count'', JNum 3), (''_table'', JStr ''user'')]"

definition plain_user_row :: obj where
  "plain_user_row = [(''id'', JNum 7), (''name'', JStr ''ann''), (''_table'', JStr ''user'')]"



section \<open>Pinch detection\<close>

lemma distance_dist:
  "distance h =
     dist (Complex (lm_x (thumbTip h)) (lm_y (thumbTip h)))
          (Complex (lm_x (indexTip h)) (lm_y (indexTip h)))"
  by (simp add: distance_def dist_norm cmod_def)

lemma process_hand_flag:
  "isPinching (pinchStateRef (process_hand cw ch now s h)) = hand_isPinching h"
  by (simp add: process_hand_def pinch_start_def pinch_continue_def pinch_release_def Let_def)

lemma boundary_distance: "distance boundary_hand = 0.05"
proof -
  have "distance boundary_hand = sqrt ((0.05::real)^2)"
    by (simp add: distance_def boundary_hand_def power2_eq_square)
  then show ?thesis by simp
qed

text \<open>
  Claim C5.  The flag computed for a hand is true exactly when the Euclidean distance
  in the plane between the thumb tip and the index tip is strictly below 0.05; the flag
  stored in the pinch state after the hand has been processed is the same; and at a
  distance of exactly 0.05 the hand is not pinching.
\<close>

theorem pinch_flag_threshold:
  "hand_isPinching h =
     (dist (Complex (lm_x (thumbTip h)) (lm_y (thumbTip h)))
           (Complex (lm_x (indexTip h)) (lm_y (indexTip h))) < 0.05) \<and>
   isPinching (pinchStateRef (process_hand cw ch now s h)) = (distance h < 0.05) \<and>
   (distance h = 0.05 \<longrightarrow> \<not> hand_isPinching h)"
  by (simp add: process_hand_flag distance_dist [symmetric] hand_isPinching_def pinchThreshold_def)

theorem pinch_flag_threshold_witness:
  "distance boundary_hand = 0.05 \<and> \<not> hand_isPinching boundary_hand"
proof -
  have d: "distance boundary_hand = 0.05"
    by (rule boundary_distance)
  have "distance boundary_hand = 0.05 \<longrightarrow> \<not> hand_isPinching boundary_hand"
    using pinch_flag_threshold [of boundary_hand] by blast
  with d show ?thesis by blast
qed

section \<open>Tables and the visible area\<close>

subsection \<open>Frame lemmas\<close>

lemma update_first_length [simp]: "length (update_first P f ts) = length ts"
  by (induction ts) auto

lemma update_first_all2:
  assumes "\<And>t. R t t" and "\<And>t. P t \<Longrightarrow> R t (f t)"
  shows "list_all2 R ts (update_first P f ts)"
  using assms by (induction ts) (auto intro: list_all2_refl)

lemma find_update_first:
  assumes "\<And>t. P (f t) = P t"
  shows "find P (update_first P f ts) = map_option f (find P ts)"
  using assms by (induction ts) auto

lemma kept_or_clamped_refl: "kept_or_clamped t t"
  by (simp add: kept_or_clamped_def)

lemma kept_or_clamped_trans:
  "kept_or_clamped a b \<Longrightarrow> kept_or_clamped b c \<Longrightarrow> kept_or_clamped a c"
  by (auto simp: kept_or_clamped_def in_visible_area_def)

lemma drag_move_visible: "in_visible_area (drag_move dx dy t)"
  by (auto simp: drag_move_def in_visible_area_def max_def min_def)

lemma tables_pinch_start:
  "list_all2 kept_or_clamped (tablesRef s) (tablesRef (pinch_start cw ch now px py s))"
  by (auto simp: pinch_start_def generate_button_pinch_def showToast_def grab_table_def Let_def
        kept_or_clamped_def
      intro!: update_first_all2 list_all2_refl split: option.splits)

lemma tables_pinch_continue:
  "list_all2 kept_or_clamped (tablesRef s) (tablesRef (pinch_continue px py s))"
  by (auto simp: pinch_continue_def Let_def kept_or_clamped_def drag_move_visible
      intro!: update_first_all2 list_all2_refl)

lemma tables_pinch_release:
  "list_all2 kept_or_clamped (tablesRef s) (tablesRef (pinch_release s))"
  by (auto simp: pinch_release_def Let_def kept_or_clamped_def
      intro!: update_first_all2 list_all2_refl split: option.splits)

lemma tables_hands_lost:
  "list_all2 kept_or_clamped (tablesRef s) (tablesRef (hands_lost s))"
  by (auto simp: hands_lost_def Let_def kept_or_clamped_def
      intro!: update_first_all2 list_all2_refl)

lemma tables_process_hand:
  "list_all2 kept_or_clamped (tablesRef s) (tablesRef (process_hand cw ch now s h))"
  by (auto simp: process_hand_def Let_def tables_pinch_start tables_pinch_continue
        tables_pinch_release kept_or_clamped_refl intro!: list_all2_refl)

lemma list_all2_kept_trans:
  "list_all2 kept_or_clamped a b \<Longrightarrow> list_all2 kept_or_clamped b c \<Longrightarrow> list_all2 kept_or_clamped a c"
  using list_all2_trans [of kept_or_clamped kept_or_clamped kept_or_clamped a b c]
    kept_or_clamped_trans by blast

lemma tables_foldl_hands:
  "list_all2 kept_or_clamped (tablesRef s) (tablesRef (foldl (process_hand cw ch now) s hs))"
proof (induction hs arbitrary: s)
  case Nil
  show ?case by (simp add: list_all2_refl kept_or_clamped_refl)
next
  case (Cons h hs)
  show ?case
    using tables_process_hand [of s cw ch now h] Cons.IH [of "process_hand cw ch now s h"]
    by (auto intro: list_all2_kept_trans)
qed

lemma tables_process_landmarks:
  "list_all2 kept_or_clamped (tablesRef s) (tablesRef (process_landmarks cw ch now s results))"
proof (cases results)
  case None
  then show ?thesis
    by (simp add: process_landmarks_def tables_hands_lost kept_or_clamped_refl list_all2_refl)
next
  case (Some hs)
  show ?thesis
  proof (cases hs)
    case Nil
    with Some show ?thesis
      by (simp add: process_landmarks_def tables_hands_lost kept_or_clamped_refl list_all2_refl)
  next
    case (Cons h hs')
    with Some show ?thesis
      using tables_foldl_hands [of s cw ch now "h # hs'"]
      by (simp add: process_landmarks_def)
  qed
qed

lemma tables_swipe_detect [simp]: "tablesRef (swipe_detect now s results) = tablesRef s"
  by (simp add: swipe_detect_def hideChartWithAnimation_def Let_def split: option.splits list.splits)

lemma dropped_swipe_detect [simp]:
  "droppedTablesRef (swipe_detect now s results) = droppedTablesRef s"
  by (simp add: swipe_detect_def hideChartWithAnimation_def Let_def split: option.splits list.splits)

lemma tables_timer_fire [simp]: "tablesRef (timer_fire now cb s) = tablesRef s"
  by (cases cb) (simp_all add: showChartWithAnimation_def)

lemma tables_foldl_timers [simp]:
  "tablesRef (foldl (\<lambda>st (t, cb). timer_fire now cb st) s due) = tablesRef s"
  by (induction due arbitrary: s) (auto split: prod.splits)

lemma tables_run_timers [simp]: "tablesRef (run_timers now s) = tablesRef s"
  by (simp add: run_timers_def Let_def)

lemma createJoinQuery_returns: "\<exists>r. createJoinQuery e tableNames = Inr r"
  by (simp add: createJoinQuery_def split: list.splits option.splits sum.splits)

lemma fetchSeparate_frame:
  "\<exists>c. fetchSeparateEventsRegistrations e s = Inr (s\<lparr>chartData := c, loadingData := False\<rparr>)"
proof (cases "fetchSeparate_body e")
  case (Inl a)
  then have "fetchSeparateEventsRegistrations e s
      = Inr (s\<lparr>chartData := events_chart (demoEvents e), loadingData := False\<rparr>)"
    by (simp add: fetchSeparateEventsRegistrations_def)
  then show ?thesis ..
next
  case (Inr rows)
  then have "fetchSeparateEventsRegistrations e s
      = Inr (s\<lparr>chartData := events_chart rows, loadingData := False\<rparr>)"
    by (simp add: fetchSeparateEventsRegistrations_def)
  then show ?thesis ..
qed

lemma fetchEvents_frame:
  "\<exists>c. fetchEventsRegistrationsData e s = Inr (s\<lparr>chartData := c, loadingData := False\<rparr>)"
proof -
  let ?s1 = "s\<lparr>loadingData := True\<rparr>"
  obtain c where c: "fetchSeparateEventsRegistrations e ?s1
      = Inr (?s1\<lparr>chartData := c, loadingData := False\<rparr>)"
    using fetchSeparate_frame by blast
  have s1: "?s1\<lparr>chartData := c, loadingData := False\<rparr> = s\<lparr>chartData := c, loadingData := False\<rparr>"
    by simp
  show ?thesis
  proof (cases "import_lib e")
    case (Inl err)
    then have "fetchEventsRegistrationsData e s = Inr (s\<lparr>chartData := c, loadingData := False\<rparr>)"
      by (simp add: fetchEventsRegistrationsData_def c)
    then show ?thesis ..
  next
    case (Inr u)
    show ?thesis
    proof (cases "run_query e ''events'' SelectEventsWithCount")
      case (Inl err)
      with Inr have "fetchEventsRegistrationsData e s = Inr (s\<lparr>chartData := c, loadingData := False\<rparr>)"
        by (simp add: fetchEventsRegistrationsData_def c)
      then show ?thesis ..
    next
      case (Inr p)
      obtain error data where p: "p = (error, data)" by (cases p)
      show ?thesis
      proof (cases error)
        case True
        with Inr p \<open>import_lib e = Inr u\<close>
        have "fetchEventsRegistrationsData e s = Inr (s\<lparr>chartData := c, loadingData := False\<rparr>)"
          by (simp add: fetchEventsRegistrationsData_def c)
        then show ?thesis ..
      next
        case False
        with Inr p \<open>import_lib e = Inr u\<close>
        have "\<exists>rows. fetchEventsRegistrationsData e s
                = Inr (s\<lparr>chartData := events_chart rows, loadingData := False\<rparr>)"
          by (simp add: fetchEventsRegistrationsData_def) (rule exI, rule refl)
        then show ?thesis by blast
      qed
    qed
  qed
qed

lemma fetchGeneric_frame:
  "\<exists>c. fetchGeneric e tableNames s = Inr (s\<lparr>chartData := c, loadingData := False\<rparr>)"
proof (cases "import_lib e")
  case (Inl err)
  then have "fetchGeneric e tableNames s
      = Inr (s\<lparr>chartData := generic_chart tableNames (demoData e tableNames), loadingData := False\<rparr>)"
    by (simp add: fetchGeneric_def)
  then show ?thesis ..
next
  case (Inr u)
  then have "fetchGeneric e tableNames s
      = Inr (s\<lparr>chartData := generic_chart tableNames (concat (map (fetch_one e) tableNames)),
               loadingData := False\<rparr>)"
    by (simp add: fetchGeneric_def)
  then show ?thesis ..
qed

lemma fetchTableData_frame:
  "\<exists>c. fetchTableData e tableNames s = Inr (s\<lparr>chartData := c, loadingData := False\<rparr>)"
proof (cases "is_events_pair tableNames")
  case True
  then show ?thesis by (simp add: fetchTableData_def fetchEvents_frame)
next
  case False
  define jq where "jq = (if length tableNames = 2 \<and> length (relationships e) > 0
               then createJoinQuery e tableNames else Inr None)"
  have "\<exists>r. jq = Inr r"
    using createJoinQuery_returns [of e tableNames] by (auto simp: jq_def)
  then obtain r where r: "jq = Inr r" ..
  have unfold: "fetchTableData e tableNames s =
      (case jq of Inl err \<Rightarrow> Inl err
       | Inr None \<Rightarrow> fetchGeneric e tableNames s
       | Inr (Some joinResult) \<Rightarrow>
             Inr (s\<lparr>chartData :=
                      \<lparr>cd_tables = tableNames,
                       cd_data = jr_data joinResult,
                       isEventsRegistrations = None,
                       joinType = Some (jr_type joinResult),
                       joinTitle = Some (jr_title joinResult),
                       joinSubtitle = Some (jr_subtitle joinResult),
                       xAxisField = Some (jr_xAxisField joinResult),
                       yAxisField = Some (jr_yAxisField joinResult),
                       yAxisLabel = Some (jr_yAxisLabel joinResult)\<rparr>,
                    loadingData := False\<rparr>))"
    using False unfolding fetchTableData_def jq_def by simp
  show ?thesis
  proof (cases r)
    case None
    with r unfold show ?thesis by (simp add: fetchGeneric_frame)
  next
    case (Some joinResult)
    with r unfold show ?thesis by simp (rule exI, rule refl)
  qed
qed

lemma step_fetch_frame:
  "\<exists>c l fx. step s (FetchCompletes e) = s\<lparr>chartData := c, loadingData := l, effects := fx\<rparr>"
proof (cases "effects s")
  case Nil
  then have "step s (FetchCompletes e)
      = s\<lparr>chartData := chartData s, loadingData := loadingData s, effects := effects s\<rparr>"
    by simp
  then show ?thesis by blast
next
  case (Cons a rest)
  obtain names where a: "a = FetchTableData names" by (cases a)
  obtain c where c: "fetchTableData e names (s\<lparr>effects := rest\<rparr>)
     = Inr (s\<lparr>effects := rest\<rparr>\<lparr>chartData := c, loadingData := False\<rparr>)"
    using fetchTableData_frame by blast
  have "step s (FetchCompletes e) = s\<lparr>chartData := c, loadingData := False, effects := rest\<rparr>"
    using Cons a c by simp
  then show ?thesis by blast
qed

lemma tables_step_fetch [simp]: "tablesRef (step s (FetchCompletes e)) = tablesRef s"
proof -
  obtain c l fx where "step s (FetchCompletes e) = s\<lparr>chartData := c, loadingData := l, effects := fx\<rparr>"
    using step_fetch_frame by blast
  then show ?thesis by simp
qed

lemma dropped_step_fetch [simp]:
  "droppedTablesRef (step s (FetchCompletes e)) = droppedTablesRef s"
proof -
  obtain c l fx where "step s (FetchCompletes e) = s\<lparr>chartData := c, loadingData := l, effects := fx\<rparr>"
    using step_fetch_frame by blast
  then show ?thesis by simp
qed

lemma tables_step: "list_all2 kept_or_clamped (tablesRef s) (tablesRef (step s ev))"
proof (cases ev)
  case (Frame cw ch now results)
  then show ?thesis
    by (simp add: renderLoop_def tables_process_landmarks list_all2_refl kept_or_clamped_refl)
next
  case (TimersDue now)
  then show ?thesis by (simp add: list_all2_refl kept_or_clamped_refl)
next
  case (FetchCompletes e)
  then show ?thesis
    by (simp add: list_all2_refl kept_or_clamped_refl del: step.simps)
qed

lemma tables_run: "list_all2 kept_or_clamped (tablesRef s) (tablesRef (run s evs))"
proof (induction evs arbitrary: s)
  case Nil
  show ?case by (simp add: run_def list_all2_refl kept_or_clamped_refl)
next
  case (Cons ev evs)
  show ?case
    using tables_step [of s ev] Cons.IH [of "step s ev"]
    by (auto simp: run_def intro: list_all2_kept_trans)
qed

lemma drag_step:
  assumes "hand_isPinching h" and "isPinching (pinchStateRef s)"
    and "truthy_ref (draggedTableRef s)"
    and "find (\<lambda>t. Some (t_id t) = draggedTableRef s) (tablesRef s) = Some t"
  shows "find (\<lambda>t. Some (t_id t) = draggedTableRef s) (tablesRef (process_hand cw ch now s h))
         = Some (drag_move (1 - (lm_x (thumbTip h) + lm_x (indexTip h)) / 2 - pinch_x (pinchStateRef s))
                           ((lm_y (thumbTip h) + lm_y (indexTip h)) / 2 - pinch_y (pinchStateRef s)) t)"
proof -
  have "\<And>dx dy u. (Some (t_id (drag_move dx dy u)) = draggedTableRef s) = (Some (t_id u) = draggedTableRef s)"
    by (simp add: drag_move_def)
  then show ?thesis
    using assms by (simp add: process_hand_def pinch_continue_def Let_def find_update_first)
qed

lemma hand_isPinching_squares:
  "hand_isPinching h \<longleftrightarrow>
     (lm_x (thumbTip h) - lm_x (indexTip h)) ^ 2 + (lm_y (thumbTip h) - lm_y (indexTip h)) ^ 2
       < 0.0025"
proof -
  let ?a = "(lm_x (thumbTip h) - lm_x (indexTip h)) ^ 2 + (lm_y (thumbTip h) - lm_y (indexTip h)) ^ 2"
  have "sqrt ?a < 0.05 \<longleftrightarrow> sqrt ?a < sqrt (0.05 ^ 2)"
    by simp
  also have "\<dots> \<longleftrightarrow> ?a < 0.05 ^ 2"
    by (rule real_sqrt_less_iff)
  also have "\<dots> \<longleftrightarrow> ?a < 0.0025"
    by (simp add: power2_eq_square)
  finally show ?thesis
    by (simp add: hand_isPinching_def distance_def pinchThreshold_def)
qed

lemma pinching_hand_pinches: "hand_isPinching pinching_hand"
  by (simp add: hand_isPinching_squares pinching_hand_def power2_eq_square)

lemma open_hand_open: "\<not> hand_isPinching open_hand"
  by (simp add: hand_isPinching_squares open_hand_def power2_eq_square)

text \<open>
  Claim C2.  When a pinching hand is processed while a pinch is held and a table is being
  dragged, the dragged table afterwards lies in [0.05, 0.95] on both axes, whatever the
  pinch centre (and so the delta) is.  Along any sequence of events (frames, timers,
  fetch completions) the number of tables is constant and every table either has the
  position it started with or lies in that area; in particular, tables that all start in
  the area all stay in it.
\<close>

theorem drag_stays_in_visible_area:
  "(hand_isPinching h \<and> isPinching (pinchStateRef s) \<and> truthy_ref (draggedTableRef s) \<and>
    find (\<lambda>t. Some (t_id t) = draggedTableRef s) (tablesRef s) = Some t \<longrightarrow>
      (\<exists>t'. find (\<lambda>t. Some (t_id t) = draggedTableRef s)
                (tablesRef (process_hand cw ch now s h)) = Some t' \<and>
            0.05 \<le> t_x t' \<and> t_x t' \<le> 0.95 \<and> 0.05 \<le> t_y t' \<and> t_y t' \<le> 0.95)) \<and>
   length (tablesRef (run s evs)) = length (tablesRef s) \<and>
   (\<forall>i < length (tablesRef s).
      (t_x (tablesRef (run s evs) ! i) = t_x (tablesRef s ! i) \<and>
       t_y (tablesRef (run s evs) ! i) = t_y (tablesRef s ! i)) \<or>
      in_visible_area (tablesRef (run s evs) ! i)) \<and>
   (list_all in_visible_area (tablesRef s) \<longrightarrow> list_all in_visible_area (tablesRef (run s evs)))"
proof (intro conjI impI)
  assume a: "hand_isPinching h \<and> isPinching (pinchStateRef s) \<and> truthy_ref (draggedTableRef s) \<and>
    find (\<lambda>t. Some (t_id t) = draggedTableRef s) (tablesRef s) = Some t"
  have "in_visible_area (drag_move dx dy t)" for dx dy
    by (rule drag_move_visible)
  then show "\<exists>t'. find (\<lambda>t. Some (t_id t) = draggedTableRef s)
                (tablesRef (process_hand cw ch now s h)) = Some t' \<and>
            0.05 \<le> t_x t' \<and> t_x t' \<le> 0.95 \<and> 0.05 \<le> t_y t' \<and> t_y t' \<le> 0.95"
    using a drag_step [of h s t cw ch now] by (simp add: in_visible_area_def)
next
  have r: "list_all2 kept_or_clamped (tablesRef s) (tablesRef (run s evs))"
    by (rule tables_run)
  then show len: "length (tablesRef (run s evs)) = length (tablesRef s)"
    by (simp add: list_all2_lengthD)
  show "\<forall>i < length (tablesRef s).
      (t_x (tablesRef (run s evs) ! i) = t_x (tablesRef s ! i) \<and>
       t_y (tablesRef (run s evs) ! i) = t_y (tablesRef s ! i)) \<or>
      in_visible_area (tablesRef (run s evs) ! i)"
    using r by (auto simp: list_all2_conv_all_nth kept_or_clamped_def)
  assume "list_all in_visible_area (tablesRef s)"
  then show "list_all in_visible_area (tablesRef (run s evs))"
    using r len
    by (auto simp: list_all_length list_all2_conv_all_nth kept_or_clamped_def in_visible_area_def)
qed

theorem drag_stays_in_visible_area_witness:
  "hand_isPinching pinching_hand \<and> isPinching (pinchStateRef held_state) \<and>
   truthy_ref (draggedTableRef held_state) \<and>
   find (\<lambda>t. Some (t_id t) = draggedTableRef held_state) (tablesRef held_state) = Some users_table \<and>
   (\<exists>t'. find (\<lambda>t. Some (t_id t) = draggedTableRef held_state)
             (tablesRef (process_hand 1280 720 0 held_state pinching_hand)) = Some t' \<and>
         0.05 \<le> t_x t' \<and> t_x t' \<le> 0.95 \<and> 0.05 \<le> t_y t' \<and> t_y t' \<le> 0.95) \<and>
   list_all in_visible_area (tablesRef held_state) \<and>
   list_all in_visible_area
     (tablesRef (run held_state [Frame 1280 720 0 (Some [pinching_hand])]))"
proof -
  have h1: "hand_isPinching pinching_hand"
    by (rule pinching_hand_pinches)
  have h2: "isPinching (pinchStateRef held_state)"
    by (simp add: held_state_def)
  have h3: "truthy_ref (draggedTableRef held_state)"
    by (simp add: held_state_def truthy_ref_def)
  have h4: "find (\<lambda>t. Some (t_id t) = draggedTableRef held_state) (tablesRef held_state)
            = Some users_table"
    by (simp add: held_state_def users_table_def posts_table_def)
  have h5: "list_all in_visible_area (tablesRef held_state)"
    by (simp add: held_state_def users_table_def posts_table_def in_visible_area_def)
  show ?thesis
    using h1 h2 h3 h4 h5
      drag_stays_in_visible_area [of pinching_hand held_state users_table 1280 720 0
        "[Frame 1280 720 0 (Some [pinching_hand])]"]
    by blast
qed

section \<open>Dropped tables, releases, transitions and the chart overlay\<close>

subsection \<open>Dropped tables\<close>

lemma dropped_pinch_start [simp]:
  "droppedTablesRef (pinch_start cw ch now px py s) = droppedTablesRef s"
  by (simp add: pinch_start_def generate_button_pinch_def showToast_def grab_table_def Let_def
      split: option.splits)

lemma dropped_pinch_continue [simp]:
  "droppedTablesRef (pinch_continue px py s) = droppedTablesRef s"
  by (simp add: pinch_continue_def Let_def)

lemma dropped_hands_lost [simp]: "droppedTablesRef (hands_lost s) = droppedTablesRef s"
  by (simp add: hands_lost_def Let_def)

lemma dropped_pinch_release:
  "droppedTablesRef (pinch_release s) =
     (if truthy_ref (draggedTableRef s) then
        (case find (\<lambda>t. Some (t_id t) = draggedTableRef s) (tablesRef s) of
           None \<Rightarrow> droppedTablesRef s
         | Some t \<Rightarrow>
             if in_dropZone t \<and> t_name t \<notin> set (droppedTablesRef s)
             then droppedTablesRef s @ [t_name t] else droppedTablesRef s)
      else droppedTablesRef s)"
  by (simp add: pinch_release_def Let_def split: option.splits)

lemma distinct_pinch_release:
  "distinct (droppedTablesRef s) \<Longrightarrow> distinct (droppedTablesRef (pinch_release s))"
  by (simp add: dropped_pinch_release split: option.splits)

lemma distinct_process_hand:
  "distinct (droppedTablesRef s) \<Longrightarrow> distinct (droppedTablesRef (process_hand cw ch now s h))"
  by (simp add: process_hand_def Let_def distinct_pinch_release)

lemma distinct_foldl_hands:
  "distinct (droppedTablesRef s) \<Longrightarrow>
   distinct (droppedTablesRef (foldl (process_hand cw ch now) s hs))"
  by (induction hs arbitrary: s) (simp_all add: distinct_process_hand)

lemma distinct_process_landmarks:
  "distinct (droppedTablesRef s) \<Longrightarrow>
   distinct (droppedTablesRef (process_landmarks cw ch now s results))"
  using distinct_foldl_hands [of s cw ch now "the results"]
  by (auto simp: process_landmarks_def split: option.splits list.splits)

lemma distinct_timer_fire:
  "distinct (droppedTablesRef s) \<Longrightarrow> distinct (droppedTablesRef (timer_fire now cb s))"
  by (cases cb) (simp_all add: showChartWithAnimation_def)

lemma distinct_foldl_timers:
  "distinct (droppedTablesRef s) \<Longrightarrow>
   distinct (droppedTablesRef (foldl (\<lambda>st (t, cb). timer_fire now cb st) s due))"
  by (induction due arbitrary: s) (auto simp: distinct_timer_fire split: prod.splits)

lemma distinct_run_timers:
  "distinct (droppedTablesRef s) \<Longrightarrow> distinct (droppedTablesRef (run_timers now s))"
  by (simp add: run_timers_def Let_def distinct_foldl_timers)

lemma distinct_step:
  "distinct (droppedTablesRef s) \<Longrightarrow> distinct (droppedTablesRef (step s ev))"
proof (cases ev)
  case (Frame cw ch now results)
  assume "distinct (droppedTablesRef s)"
  with Frame show ?thesis
    by (simp add: renderLoop_def distinct_process_landmarks)
next
  case (TimersDue now)
  assume "distinct (droppedTablesRef s)"
  with TimersDue show ?thesis by (simp add: distinct_run_timers)
next
  case (FetchCompletes e)
  assume "distinct (droppedTablesRef s)"
  with FetchCompletes show ?thesis by (simp del: step.simps)
qed

lemma distinct_run:
  "distinct (droppedTablesRef s) \<Longrightarrow> distinct (droppedTablesRef (run s evs))"
  unfolding run_def by (induction evs arbitrary: s) (simp_all add: distinct_step)

text \<open>
  Claim C6.  The list of dropped tables never holds a name twice: along any sequence of
  events a duplicate-free list stays duplicate-free, so it is duplicate-free in every
  state reachable from the initial one; and releasing a table whose name is already in
  the list leaves the list as it was.
\<close>

theorem dropped_tables_distinct:
  "(distinct (droppedTablesRef s) \<longrightarrow> distinct (droppedTablesRef (run s evs))) \<and>
   distinct (droppedTablesRef (run (initial_state\<lparr>tablesRef := ts\<rparr>) evs)) \<and>
   (isPinching (pinchStateRef s) \<and> \<not> hand_isPinching h \<and> truthy_ref (draggedTableRef s) \<and>
    find (\<lambda>t. Some (t_id t) = draggedTableRef s) (tablesRef s) = Some t \<and>
    t_name t \<in> set (droppedTablesRef s) \<longrightarrow>
      droppedTablesRef (process_hand cw ch now s h) = droppedTablesRef s)"
proof (intro conjI impI)
  assume "distinct (droppedTablesRef s)"
  then show "distinct (droppedTablesRef (run s evs))" by (rule distinct_run)
next
  have "distinct (droppedTablesRef (initial_state\<lparr>tablesRef := ts\<rparr>))"
    by (simp add: initial_state_def)
  then show "distinct (droppedTablesRef (run (initial_state\<lparr>tablesRef := ts\<rparr>) evs))"
    by (rule distinct_run)
next
  assume "isPinching (pinchStateRef s) \<and> \<not> hand_isPinching h \<and> truthy_ref (draggedTableRef s) \<and>
    find (\<lambda>t. Some (t_id t) = draggedTableRef s) (tablesRef s) = Some t \<and>
    t_name t \<in> set (droppedTablesRef s)"
  then show "droppedTablesRef (process_hand cw ch now s h) = droppedTablesRef s"
    by (simp add: process_hand_def dropped_pinch_release)
qed

theorem dropped_tables_distinct_witness:
  "distinct (droppedTablesRef held_again_state) \<and>
   distinct (droppedTablesRef
     (run held_again_state [Frame 1280 720 0 (Some [open_hand]), TimersDue 100])) \<and>
   isPinching (pinchStateRef held_again_state) \<and> \<not> hand_isPinching open_hand \<and>
   truthy_ref (draggedTableRef held_again_state) \<and>
   find (\<lambda>t. Some (t_id t) = draggedTableRef held_again_state) (tablesRef held_again_state)
     = Some users_table \<and>
   in_dropZone users_table \<and>
   t_name users_table \<in> set (droppedTablesRef held_again_state) \<and>
   droppedTablesRef (process_hand 1280 720 0 held_again_state open_hand) = [''users'']"
proof -
  have h1: "distinct (droppedTablesRef held_again_state)"
    by (simp add: held_again_state_def)
  have h2: "isPinching (pinchStateRef held_again_state)"
    by (simp add: held_again_state_def held_state_def)
  have h3: "\<not> hand_isPinching open_hand"
    by (rule open_hand_open)
  have h4: "truthy_ref (draggedTableRef held_again_state)"
    by (simp add: held_again_state_def held_state_def truthy_ref_def)
  have h5: "find (\<lambda>t. Some (t_id t) = draggedTableRef held_again_state)
              (tablesRef held_again_state) = Some users_table"
    by (simp add: held_again_state_def held_state_def users_table_def posts_table_def)
  have h6: "t_name users_table \<in> set (droppedTablesRef held_again_state)"
    by (simp add: held_again_state_def users_table_def)
  have h7: "in_dropZone users_table"
    by (simp add: in_dropZone_def users_table_def dropZone_x_def dropZone_y_def
        dropZone_width_def dropZone_height_def)
  have h8: "droppedTablesRef held_again_state = [''users'']"
    by (simp add: held_again_state_def)
  show ?thesis
    using h1 h2 h3 h4 h5 h6 h7 h8
      dropped_tables_distinct [where s = held_again_state
        and evs = "[Frame 1280 720 0 (Some [open_hand]), TimersDue 100]"
        and h = open_hand and t = users_table and ts = "[]"
        and cw = 1280 and ch = 720 and now = 0]
    by simp
qed

subsection \<open>Releasing a pinch\<close>


lemma update_first_not_found: "find P ts = None \<Longrightarrow> update_first P f ts = ts"
  by (induction ts) (auto split: if_splits)

lemma tables_pinch_release_eq:
  "tablesRef (pinch_release s) =
     (if truthy_ref (draggedTableRef s)
      then update_first (\<lambda>t. Some (t_id t) = draggedTableRef s) (\<lambda>t. t\<lparr>isDragging := False\<rparr>)
             (tablesRef s)
      else tablesRef s)"
  by (simp add: pinch_release_def Let_def update_first_not_found split: option.splits)







lemma users_in_dropZone: "in_dropZone users_table"
  by (simp add: in_dropZone_def users_table_def dropZone_x_def dropZone_y_def
      dropZone_width_def dropZone_height_def)

lemma held_state_release:
  "tablesRef (pinch_release held_state) = [posts_table, users_table\<lparr>isDragging := False\<rparr>] \<and>
   droppedTablesRef (pinch_release held_state) = [''users''] \<and>
   draggedTableRef (pinch_release held_state) = None \<and>
   \<not> generateButtonHoverRef (pinch_release held_state) \<and>
   \<not> buttonClickedRef (pinch_release held_state) \<and>
   \<not> isPinching (pinchStateRef (pinch_release held_state))"
  by (simp add: pinch_release_def held_state_def initial_state_def truthy_ref_def Let_def
      users_table_def posts_table_def in_dropZone_def dropZone_x_def dropZone_y_def
      dropZone_width_def dropZone_height_def)

lemma held_state_hands_lost:
  "tablesRef (hands_lost held_state) = [posts_table, users_table\<lparr>isDragging := False\<rparr>] \<and>
   droppedTablesRef (hands_lost held_state) = [] \<and>
   draggedTableRef (hands_lost held_state) = None \<and>
   \<not> generateButtonHoverRef (hands_lost held_state) \<and>
   buttonClickedRef (hands_lost held_state) \<and>
   \<not> isPinching (pinchStateRef (hands_lost held_state))"
  by (simp add: hands_lost_def held_state_def initial_state_def truthy_ref_def Let_def
      users_table_def posts_table_def)


text \<open>
  Claim C1, evaluated at a state where a pinch holds the table \<open>users\<close> inside the
  drop zone, the list of dropped tables is empty and the click latch is set.  A frame
  without hands ends the pinch but leaves the list empty and the latch set; a frame with
  an open hand ends the pinch, appends \<open>users\<close> and resets the latch.
\<close>

theorem hands_lost_skips_drop_test:
  "isPinching (pinchStateRef held_state) \<and>
   find (\<lambda>t. Some (t_id t) = draggedTableRef held_state) (tablesRef held_state)
     = Some users_table \<and>
   in_dropZone users_table \<and> droppedTablesRef held_state = [] \<and>
   buttonClickedRef held_state \<and>
   \<not> isPinching (pinchStateRef (renderLoop 1280 720 0 held_state None)) \<and>
   droppedTablesRef (renderLoop 1280 720 0 held_state None) = [] \<and>
   buttonClickedRef (renderLoop 1280 720 0 held_state None) \<and>
   \<not> isPinching (pinchStateRef (renderLoop 1280 720 0 held_state (Some [open_hand]))) \<and>
   droppedTablesRef (renderLoop 1280 720 0 held_state (Some [open_hand])) = [''users''] \<and>
   \<not> buttonClickedRef (renderLoop 1280 720 0 held_state (Some [open_hand]))"
proof -
  have h1: "isPinching (pinchStateRef held_state)" and h0: "\<not> showChart held_state"
    and h4: "droppedTablesRef held_state = []" and h5: "buttonClickedRef held_state"
    by (simp_all add: held_state_def initial_state_def)
  have h2: "find (\<lambda>t. Some (t_id t) = draggedTableRef held_state) (tablesRef held_state)
     = Some users_table"
    by (simp add: held_state_def users_table_def posts_table_def)
  have lost: "renderLoop 1280 720 0 held_state None = hands_lost held_state"
    using h0 h1 by (simp add: renderLoop_def process_landmarks_def)
  have rel: "renderLoop 1280 720 0 held_state (Some [open_hand]) = pinch_release held_state"
    using h0 h1 open_hand_open by (simp add: renderLoop_def process_landmarks_def process_hand_def)
  show ?thesis
    using h1 h2 h4 h5 users_in_dropZone held_state_release held_state_hands_lost
    unfolding lost rel by simp
qed

lemma live_release_complete:
  assumes "isPinching (pinchStateRef s)" and "\<not> hand_isPinching h"
    and "truthy_ref (draggedTableRef s)"
    and "find (\<lambda>t. Some (t_id t) = draggedTableRef s) (tablesRef s) = Some t"
  shows "find (\<lambda>t. Some (t_id t) = draggedTableRef s) (tablesRef (process_hand cw ch now s h))
           = Some (t\<lparr>isDragging := False\<rparr>) \<and>
         droppedTablesRef (process_hand cw ch now s h) =
           (if in_dropZone t \<and> t_name t \<notin> set (droppedTablesRef s)
            then droppedTablesRef s @ [t_name t] else droppedTablesRef s) \<and>
         draggedTableRef (process_hand cw ch now s h) = None \<and>
         \<not> generateButtonHoverRef (process_hand cw ch now s h) \<and>
         \<not> buttonClickedRef (process_hand cw ch now s h) \<and>
         \<not> isPinching (pinchStateRef (process_hand cw ch now s h))"
proof -
  have p: "process_hand cw ch now s h = pinch_release s"
    using assms(1,2) by (simp add: process_hand_def)
  have f: "find (\<lambda>t. Some (t_id t) = draggedTableRef s) (tablesRef (pinch_release s))
           = Some (t\<lparr>isDragging := False\<rparr>)"
    using assms(3,4) by (simp add: tables_pinch_release_eq find_update_first)
  have rest: "draggedTableRef (pinch_release s) = None \<and>
         \<not> generateButtonHoverRef (pinch_release s) \<and>
         \<not> buttonClickedRef (pinch_release s) \<and>
         \<not> isPinching (pinchStateRef (pinch_release s))"
    using assms(3,4) by (simp add: pinch_release_def Let_def)
  show ?thesis
    unfolding p using f rest assms(3,4) by (simp add: dropped_pinch_release)
qed

lemma hands_lost_partial:
  assumes "isPinching (pinchStateRef s)" and "results = None \<or> results = Some []"
  shows "droppedTablesRef (process_landmarks cw ch now s results) = droppedTablesRef s \<and>
         buttonClickedRef (process_landmarks cw ch now s results) = buttonClickedRef s \<and>
         \<not> generateButtonHoverRef (process_landmarks cw ch now s results) \<and>
         \<not> isPinching (pinchStateRef (process_landmarks cw ch now s results))"
proof -
  have p: "process_landmarks cw ch now s results = hands_lost s"
    using assms by (auto simp: process_landmarks_def)
  show ?thesis
    unfolding p by (simp add: hands_lost_def Let_def)
qed

subsection \<open>Transitions per frame\<close>


lemma hand_states_length [simp]: "length (hand_states cw ch now s hs) = Suc (length hs)"
  by (induction hs arbitrary: s) auto



lemma swipe_process_hand [simp]:
  "swipeStateRef (process_hand cw ch now s h) = swipeStateRef s"
  by (simp add: process_hand_def pinch_start_def generate_button_pinch_def showToast_def
      grab_table_def pinch_continue_def pinch_release_def Let_def split: option.splits)

lemma swipe_hands_lost [simp]: "swipeStateRef (hands_lost s) = swipeStateRef s"
  by (simp add: hands_lost_def Let_def)









subsection \<open>Swipe to dismiss\<close>

text \<open>
  Claim C4.  While the chart is shown and tracking is active: on a frame whose first hand
  has its index finger extended (the frames on which the swipe position is measured), the
  dismissal starts (the hide animation and its 600 ms timer) exactly when the horizontal
  distance from the tracking start exceeds 0.3, the vertical distance is below 0.2 and
  less than 1000 ms have elapsed, and otherwise the chart state and the timers are
  untouched; on a frame without a hand, or with the finger retracted, no dismissal
  starts.
\<close>

theorem swipe_dismiss_iff:
  "showChart s \<and> isTracking (swipeStateRef s) \<longrightarrow>
     (results = Some (h # hs) \<and> lm_y (indexTip h) < lm_y (indexPip h) \<longrightarrow>
        swipe_dismissed now s (renderLoop cw ch now s results) =
          (\<bar>(1 - lm_x (indexTip h)) - startX (swipeStateRef s)\<bar> > 0.3 \<and>
           \<bar>lm_y (indexTip h) - startY (swipeStateRef s)\<bar> < 0.2 \<and>
           now - startTime (swipeStateRef s) < 1000) \<and>
        (\<not> swipe_dismissed now s (renderLoop cw ch now s results) \<longrightarrow>
           timers (renderLoop cw ch now s results) = timers s \<and>
           showChart (renderLoop cw ch now s results) \<and>
           chartAnimationState (renderLoop cw ch now s results) = chartAnimationState s \<and>
           chartAnimationStartRef (renderLoop cw ch now s results) = chartAnimationStartRef s)) \<and>
     ((\<forall>h' hs'. results = Some (h' # hs') \<longrightarrow> \<not> lm_y (indexTip h') < lm_y (indexPip h')) \<longrightarrow>
        \<not> swipe_dismissed now s (renderLoop cw ch now s results))"
proof (intro impI conjI)
  assume a: "showChart s \<and> isTracking (swipeStateRef s)"
  {
    assume b: "results = Some (h # hs) \<and> lm_y (indexTip h) < lm_y (indexPip h)"
    show "swipe_dismissed now s (renderLoop cw ch now s results) =
          (\<bar>(1 - lm_x (indexTip h)) - startX (swipeStateRef s)\<bar> > 0.3 \<and>
           \<bar>lm_y (indexTip h) - startY (swipeStateRef s)\<bar> < 0.2 \<and>
           now - startTime (swipeStateRef s) < 1000)"
      using a b
      by (auto simp: renderLoop_def swipe_detect_def swipe_dismissed_def
          hideChartWithAnimation_def Let_def)
    assume c: "\<not> swipe_dismissed now s (renderLoop cw ch now s results)"
    show "timers (renderLoop cw ch now s results) = timers s"
      and "showChart (renderLoop cw ch now s results)"
      and "chartAnimationState (renderLoop cw ch now s results) = chartAnimationState s"
      and "chartAnimationStartRef (renderLoop cw ch now s results) = chartAnimationStartRef s"
      using a b c
      by (auto simp: renderLoop_def swipe_detect_def swipe_dismissed_def
          hideChartWithAnimation_def Let_def split: if_splits)
  }
  assume d: "\<forall>h' hs'. results = Some (h' # hs') \<longrightarrow> \<not> lm_y (indexTip h') < lm_y (indexPip h')"
  have "timers (swipe_detect now s results) = timers s"
  proof (cases results)
    case None
    then show ?thesis by (simp add: swipe_detect_def)
  next
    case (Some hands)
    show ?thesis
    proof (cases hands)
      case Nil
      with Some show ?thesis by (simp add: swipe_detect_def)
    next
      case (Cons h' hs')
      with Some d have "\<not> lm_y (indexTip h') < lm_y (indexPip h')" by simp
      with Some Cons show ?thesis by (simp add: swipe_detect_def Let_def)
    qed
  qed
  with a show "\<not> swipe_dismissed now s (renderLoop cw ch now s results)"
    by (simp add: renderLoop_def swipe_dismissed_def)
qed

theorem swipe_dismiss_iff_witness:
  "showChart swiping_state \<and> isTracking (swipeStateRef swiping_state) \<and>
   lm_y (indexTip swipe_hand) < lm_y (indexPip swipe_hand) \<and>
   swipe_dismissed 1500 swiping_state
     (renderLoop 1280 720 1500 swiping_state (Some [swipe_hand])) \<and>
   \<not> swipe_dismissed 2000 swiping_state
     (renderLoop 1280 720 2000 swiping_state (Some [swipe_hand])) \<and>
   \<not> swipe_dismissed 1500 swiping_state (renderLoop 1280 720 1500 swiping_state None)"
proof -
  have h1: "showChart swiping_state \<and> isTracking (swipeStateRef swiping_state)"
    and st: "startX (swipeStateRef swiping_state) = 0.2"
      "startY (swipeStateRef swiping_state) = 0.5"
      "startTime (swipeStateRef swiping_state) = 1000"
    by (simp_all add: swiping_state_def)
  have h3: "lm_y (indexTip swipe_hand) < lm_y (indexPip swipe_hand)"
    and tip: "lm_x (indexTip swipe_hand) = 0.4" "lm_y (indexTip swipe_hand) = 0.45"
    by (simp_all add: swipe_hand_def)
  have h4: "Some [swipe_hand] = Some (swipe_hand # []) \<and>
            lm_y (indexTip swipe_hand) < lm_y (indexPip swipe_hand)"
    using h3 by simp
  note th = swipe_dismiss_iff [where s = swiping_state and h = swipe_hand and hs = "[]"
      and cw = 1280 and ch = 720, rule_format, OF h1]
  have a: "swipe_dismissed 1500 swiping_state
            (renderLoop 1280 720 1500 swiping_state (Some [swipe_hand]))"
    using th [where results = "Some [swipe_hand]" and now = 1500, THEN conjunct1, rule_format,
        OF h4, THEN conjunct1]
    by (simp add: st tip)
  have b: "\<not> swipe_dismissed 2000 swiping_state
            (renderLoop 1280 720 2000 swiping_state (Some [swipe_hand]))"
    using th [where results = "Some [swipe_hand]" and now = 2000, THEN conjunct1, rule_format,
        OF h4, THEN conjunct1]
    by (simp add: st tip)
  have c: "\<not> swipe_dismissed 1500 swiping_state (renderLoop 1280 720 1500 swiping_state None)"
    using th [where results = None and now = 1500, THEN conjunct2] by simp
  from h1 h3 a b c show ?thesis by blast
qed

subsection \<open>Chart animation\<close>








section \<open>Relationship detection\<close>

lemma lower_post: "toLowerCase ''post'' = ''post''" and lower_user: "toLowerCase ''user'' = ''user''"
  and lower_id: "toLowerCase ''id'' = ''id''" and lower_user_id: "toLowerCase ''user_id'' = ''user_id''"
  and lower_post_count: "toLowerCase ''post_count'' = ''post_count''"
  and lower_name: "toLowerCase ''name'' = ''name''"
  by (simp_all add: toLowerCase_def lower_char_def)

lemma rows_post:
  "table_rows ''post'' [post_row, user_row] = [post_row]"
  "table_rows ''user'' [post_row, user_row] = [user_row]"
  by (simp_all add: table_rows_def obj_get_def post_row_def user_row_def)

lemma cols_rows:
  "first_columns [post_row] = [''id'', ''user_id'']"
  "first_columns [user_row] = [''id'', ''post_count'']"
  by (simp_all add: first_columns_def public_keys_def post_row_def user_row_def)

lemma refs_rows:
  "ref_columns ''user'' [''id'', ''user_id''] = [''user_id'']"
  "ref_columns ''post'' [''id'', ''post_count''] = [''post_count'']"
  by (simp_all add: ref_columns_def lower_post lower_user lower_id lower_user_id lower_post_count)

text \<open>
  Claim C8 fails as stated.  Table \<open>post\<close> has the column \<open>user_id\<close> and table
  \<open>user\<close> has no column \<open>post_id\<close>, but it has a column \<open>post_count\<close>, whose name
  contains \<open>post\<close>.  Called with (post, user) the detection reports post as referencing
  user through \<open>user_id\<close>; called with (user, post) it reports user as referencing
  post through \<open>post_count\<close>.
\<close>

theorem detect_depends_on_order:
  "first_columns (table_rows ''post'' [post_row, user_row]) = [''id'', ''user_id''] \<and>
   first_columns (table_rows ''user'' [post_row, user_row]) = [''id'', ''post_count''] \<and>
   detectTableRelationships [''post'', ''user''] [post_row, user_row] =
     Some \<lparr>foreignKey = ''user_id'', referencingTable = ''post'', referencedTable = ''user'',
           referencingData = [post_row], referencedData = [user_row]\<rparr> \<and>
   detectTableRelationships [''user'', ''post''] [post_row, user_row] =
     Some \<lparr>foreignKey = ''post_count'', referencingTable = ''user'', referencedTable = ''post'',
           referencingData = [user_row], referencedData = [post_row]\<rparr> \<and>
   detectTableRelationships [''post'', ''user''] [post_row, user_row]
     \<noteq> detectTableRelationships [''user'', ''post''] [post_row, user_row]"
proof -
  have a: "detectTableRelationships [''post'', ''user''] [post_row, user_row] =
     Some \<lparr>foreignKey = ''user_id'', referencingTable = ''post'', referencedTable = ''user'',
           referencingData = [post_row], referencedData = [user_row]\<rparr>"
    by (simp add: detectTableRelationships_def rows_post cols_rows refs_rows truthy_ref_def)
  have b: "detectTableRelationships [''user'', ''post''] [post_row, user_row] =
     Some \<lparr>foreignKey = ''post_count'', referencingTable = ''user'', referencedTable = ''post'',
           referencingData = [user_row], referencedData = [post_row]\<rparr>"
    by (simp add: detectTableRelationships_def rows_post cols_rows refs_rows truthy_ref_def)
  show ?thesis
    unfolding a b by (simp add: rows_post cols_rows)
qed

lemma ref_columns_id_column:
  assumes "col \<in> set cols" and "toLowerCase col = toLowerCase other @ ''_id''"
  shows "col \<in> set (ref_columns other cols)"
  using assms by (simp add: ref_columns_def)

lemma includes_str_nonempty: "includes_str s sub \<Longrightarrow> sub \<noteq> [] \<Longrightarrow> s \<noteq> []"
  by (cases s) auto

lemma ref_columns_nonempty_names:
  assumes "t \<noteq> []" and "c \<in> set (ref_columns t cols)"
  shows "c \<noteq> []"
proof -
  have l: "toLowerCase t \<noteq> []"
    using assms(1) by (simp add: toLowerCase_def)
  have "includes_str (toLowerCase c) (toLowerCase t) \<or>
        toLowerCase c = toLowerCase t @ ''_id'' \<or> toLowerCase c = toLowerCase t @ ''id''"
    using assms(2) by (simp add: ref_columns_def)
  then have "toLowerCase c \<noteq> []"
    using l includes_str_nonempty by auto
  then show ?thesis by (auto simp: toLowerCase_def)
qed

text \<open>
  Claim C8, amended.  A column named \<open><other>_id\<close> (compared in lower case) is one of
  the columns taken as a reference.  When the first record of one table has a column
  whose lower-cased name contains the other table's lower-cased name, and the first
  record of the other table has no such column for the first table, the detection
  returns the same result in both name orders; when both tables have rows and non-empty
  names, that result names the first table as referencing, the other as referenced, and
  the first such column as foreign key.
\<close>

theorem detect_same_in_both_orders:
  "(col \<in> set (first_columns (table_rows t1 d)) \<and> toLowerCase col = toLowerCase t2 @ ''_id'' \<longrightarrow>
      col \<in> set (ref_columns t2 (first_columns (table_rows t1 d)))) \<and>
   (ref_columns t2 (first_columns (table_rows t1 d)) \<noteq> [] \<and>
    ref_columns t1 (first_columns (table_rows t2 d)) = [] \<longrightarrow>
      detectTableRelationships [t1, t2] d = detectTableRelationships [t2, t1] d \<and>
      (table_rows t2 d \<noteq> [] \<and> t1 \<noteq> [] \<and> t2 \<noteq> [] \<longrightarrow>
         detectTableRelationships [t1, t2] d =
           Some \<lparr>foreignKey = hd (ref_columns t2 (first_columns (table_rows t1 d))),
                 referencingTable = t1, referencedTable = t2,
                 referencingData = table_rows t1 d, referencedData = table_rows t2 d\<rparr>))"
proof (intro conjI impI)
  assume "col \<in> set (first_columns (table_rows t1 d)) \<and> toLowerCase col = toLowerCase t2 @ ''_id''"
  then show "col \<in> set (ref_columns t2 (first_columns (table_rows t1 d)))"
    by (simp add: ref_columns_id_column)
next
  assume a: "ref_columns t2 (first_columns (table_rows t1 d)) \<noteq> [] \<and>
   ref_columns t1 (first_columns (table_rows t2 d)) = []"
  have ne: "t1 \<noteq> t2"
    using a by auto
  have r1: "table_rows t1 d \<noteq> []"
    using a by (auto simp: first_columns_def public_keys_def ref_columns_def)
  have fwd: "detectTableRelationships [t1, t2] d =
      (if table_rows t2 d = [] \<or> t1 = [] \<or> t2 = [] \<or>
          hd (ref_columns t2 (first_columns (table_rows t1 d))) = [] then None
       else Some \<lparr>foreignKey = hd (ref_columns t2 (first_columns (table_rows t1 d))),
                referencingTable = t1, referencedTable = t2,
                referencingData = table_rows t1 d, referencedData = table_rows t2 d\<rparr>)"
    using a r1 ne by (auto simp: detectTableRelationships_def Let_def truthy_ref_def)
  have bwd: "detectTableRelationships [t2, t1] d =
      (if table_rows t2 d = [] \<or> t1 = [] \<or> t2 = [] \<or>
          hd (ref_columns t2 (first_columns (table_rows t1 d))) = [] then None
       else Some \<lparr>foreignKey = hd (ref_columns t2 (first_columns (table_rows t1 d))),
                referencingTable = t1, referencedTable = t2,
                referencingData = table_rows t1 d, referencedData = table_rows t2 d\<rparr>)"
    using a r1 ne by (auto simp: detectTableRelationships_def Let_def truthy_ref_def)
  show "detectTableRelationships [t1, t2] d = detectTableRelationships [t2, t1] d"
    unfolding fwd bwd by simp
  assume b: "table_rows t2 d \<noteq> [] \<and> t1 \<noteq> [] \<and> t2 \<noteq> []"
  have "hd (ref_columns t2 (first_columns (table_rows t1 d)))
          \<in> set (ref_columns t2 (first_columns (table_rows t1 d)))"
    using a by simp
  then have "hd (ref_columns t2 (first_columns (table_rows t1 d))) \<noteq> []"
    using b ref_columns_nonempty_names by blast
  with b show "detectTableRelationships [t1, t2] d =
           Some \<lparr>foreignKey = hd (ref_columns t2 (first_columns (table_rows t1 d))),
                 referencingTable = t1, referencedTable = t2,
                 referencingData = table_rows t1 d, referencedData = table_rows t2 d\<rparr>"
    unfolding fwd by simp
qed

lemma rows_plain:
  "table_rows ''post'' [post_row, plain_user_row] = [post_row]"
  "table_rows ''user'' [post_row, plain_user_row] = [plain_user_row]"
  by (simp_all add: table_rows_def obj_get_def post_row_def plain_user_row_def)

lemma cols_plain: "first_columns [plain_user_row] = [''id'', ''name'']"
  by (simp add: first_columns_def public_keys_def plain_user_row_def)

lemma refs_plain: "ref_columns ''post'' [''id'', ''name''] = []"
  by (simp add: ref_columns_def lower_post lower_id lower_name)

theorem detect_same_in_both_orders_witness:
  "''user_id'' \<in> set (first_columns (table_rows ''post'' [post_row, plain_user_row])) \<and>
   toLowerCase ''user_id'' = toLowerCase ''user'' @ ''_id'' \<and>
   ref_columns ''post'' (first_columns (table_rows ''user'' [post_row, plain_user_row])) = [] \<and>
   detectTableRelationships [''user'', ''post''] [post_row, plain_user_row] =
     Some \<lparr>foreignKey = ''user_id'', referencingTable = ''post'', referencedTable = ''user'',
           referencingData = [post_row], referencedData = [plain_user_row]\<rparr> \<and>
   detectTableRelationships [''post'', ''user''] [post_row, plain_user_row] =
     Some \<lparr>foreignKey = ''user_id'', referencingTable = ''post'', referencedTable = ''user'',
           referencingData = [post_row], referencedData = [plain_user_row]\<rparr>"
proof -
  let ?d = "[post_row, plain_user_row]"
  have h1: "''user_id'' \<in> set (first_columns (table_rows ''post'' ?d))"
    by (simp add: rows_plain cols_rows)
  have h2: "toLowerCase ''user_id'' = toLowerCase ''user'' @ ''_id''"
    by (simp add: lower_user lower_user_id)
  have h3: "ref_columns ''post'' (first_columns (table_rows ''user'' ?d)) = []"
    by (simp add: rows_plain cols_plain refs_plain)
  have h4: "ref_columns ''user'' (first_columns (table_rows ''post'' ?d)) = [''user_id'']"
    by (simp add: rows_plain cols_rows refs_rows)
  have h5: "table_rows ''user'' ?d \<noteq> [] \<and> ''post'' \<noteq> [] \<and> ''user'' \<noteq> []"
    by (simp add: rows_plain)
  note th = detect_same_in_both_orders [where ?t1.0 = "''post''" and ?t2.0 = "''user''"
      and d = ?d and col = "''user_id''", THEN conjunct2, rule_format]
  have ne: "ref_columns ''user'' (first_columns (table_rows ''post'' ?d)) \<noteq> []"
    using h4 by simp
  have same: "detectTableRelationships [''post'', ''user''] ?d
              = detectTableRelationships [''user'', ''post''] ?d"
    using th [OF conjI [OF ne h3]] by blast
  have val: "detectTableRelationships [''post'', ''user''] ?d =
     Some \<lparr>foreignKey = ''user_id'', referencingTable = ''post'', referencedTable = ''user'',
           referencingData = [post_row], referencedData = [plain_user_row]\<rparr>"
    using th [OF conjI [OF ne h3], THEN conjunct2, rule_format, OF h5]
    by (simp add: rows_plain cols_rows refs_rows)
  show ?thesis
    using h1 h2 h3 val same by simp
qed

section \<open>Fetching chart data\<close>

subsection \<open>Fallback data of the fetch\<close>















subsection \<open>Shape of the demo rows\<close>










lemma demo_key_range:
  assumes "0 \<le> r" and "r < (1::real)"
  shows "1 \<le> \<lfloor>r * 5\<rfloor> + 1 \<and> \<lfloor>r * 5\<rfloor> + 1 \<le> 5"
proof -
  have "0 \<le> \<lfloor>r * 5\<rfloor>" using assms(1) by simp
  moreover have "\<lfloor>r * 5\<rfloor> < 5"
    using assms(2) by (simp add: floor_less_iff)
  ultimately show ?thesis by simp
qed










end
